theory Spec2Isabelle
  imports Main
begin
section \<open>JavaScript strings\<close>

text \<open>
  A JavaScript string is modelled as a \<^typ>\<open>string\<close>, one \<^typ>\<open>char\<close> per code unit.
  The case mappings and the character classes below are the ASCII ones, so the model
  follows the program on ASCII text (identifiers, type annotations and test-runner
  output of ordinary TypeScript projects).
\<close>

text \<open>\<^verbatim>\<open>s.startsWith(t)\<close>\<close>

definition startsWith :: "string \<Rightarrow> string \<Rightarrow> bool" where
  "startsWith s t = (take (length t) s = t)"

text \<open>\<^verbatim>\<open>s.endsWith(t)\<close>\<close>

definition endsWith :: "string \<Rightarrow> string \<Rightarrow> bool" where
  "endsWith s t = (length t \<le> length s \<and> drop (length s - length t) s = t)"

text \<open>\<^verbatim>\<open>s.includes(t)\<close>: \<open>t\<close> occurs in \<open>s\<close> as a contiguous substring.\<close>

fun str_includes :: "string \<Rightarrow> string \<Rightarrow> bool" where
  "str_includes [] t = (t = [])"
| "str_includes (c # cs) t = (startsWith (c # cs) t \<or> str_includes cs t)"

text \<open>\<^verbatim>\<open>s.split(d)\<close> for a one-character separator: never empty.\<close>

fun str_split :: "char \<Rightarrow> string \<Rightarrow> string list" where
  "str_split d [] = [[]]"
| "str_split d (c # cs) =
     (if c = d then [] # str_split d cs
      else (case str_split d cs of
              [] \<Rightarrow> [[c]]
            | x # xs \<Rightarrow> (c # x) # xs))"

text \<open>\<^verbatim>\<open>xs.join(sep)\<close>\<close>

fun str_join :: "string \<Rightarrow> string list \<Rightarrow> string" where
  "str_join sep [] = []"
| "str_join sep [x] = x"
| "str_join sep (x # y # ys) = x @ sep @ str_join sep (y # ys)"

definition isWhiteSpace :: "char \<Rightarrow> bool" where
  "isWhiteSpace c = (c \<in> set [CHR 0x09, CHR 0x0A, CHR 0x0B, CHR 0x0C, CHR 0x0D, CHR 0x20])"

text \<open>\<^verbatim>\<open>s.trim()\<close>\<close>

definition trim :: "string \<Rightarrow> string" where
  "trim s = rev (dropWhile isWhiteSpace (rev (dropWhile isWhiteSpace s)))"

text \<open>The classes \<^verbatim>\<open>[A-Z]\<close> and \<^verbatim>\<open>[a-z]\<close>, and the case mappings of single letters.\<close>

definition upperLetters :: string where
  "upperLetters = ''ABCDEFGHIJKLMNOPQRSTUVWXYZ''"

definition lowerLetters :: string where
  "lowerLetters = ''abcdefghijklmnopqrstuvwxyz''"

definition isUpper :: "char \<Rightarrow> bool" where
  "isUpper c = (c \<in> set upperLetters)"

definition isLower :: "char \<Rightarrow> bool" where
  "isLower c = (c \<in> set lowerLetters)"

definition toLowerChar :: "char \<Rightarrow> char" where
  "toLowerChar c = (case map_of (zip upperLetters lowerLetters) c of Some l \<Rightarrow> l | None \<Rightarrow> c)"

definition toUpperChar :: "char \<Rightarrow> char" where
  "toUpperChar c = (case map_of (zip lowerLetters upperLetters) c of Some u \<Rightarrow> u | None \<Rightarrow> c)"

text \<open>\<^verbatim>\<open>s.toLowerCase()\<close>\<close>

definition toLowerCase :: "string \<Rightarrow> string" where
  "toLowerCase s = map toLowerChar s"

section \<open>The component model\<close>

text \<open>
  \<^verbatim>\<open>PropDefinition\<close>, \<^verbatim>\<open>ImportInfo\<close> and \<^verbatim>\<open>ComponentAnalysis\<close> of
  \<^verbatim>\<open>component-analyzer.ts\<close>. Field names carry a prefix where two interfaces share
  a name; \<^verbatim>\<open>imports\<close> of the analysis is \<open>importInfos\<close>.
\<close>

record PropDefinition =
  prop_name :: string
  prop_type :: string
  prop_optional :: bool
  prop_defaultValue :: "string option"
  prop_description :: "string option"

record ImportInfo =
  import_source :: string
  import_names :: "string list"
  isDefault :: bool

datatype ComponentType = functional | class_component

record ComponentAnalysis =
  componentName :: string
  componentType :: ComponentType
  props :: "PropDefinition list"
  exports :: "string list"
  importInfos :: "ImportInfo list"
  hasDefaultExport :: bool
  filePath :: string

record TestCase =
  tc_name :: string
  tc_description :: string
  tc_code :: string

section \<open>The test generator\<close>

text \<open>The callback marker \<^verbatim>\<open>'() => void'\<close> that the generator looks for in a type text.\<close>

definition callbackMarker :: string where
  "callbackMarker = ''() => void''"

text \<open>
  \<^verbatim>\<open>getImportPath\<close>: the last \<^verbatim>\<open>/\<close>-separated part of the path, without a final
  \<^verbatim>\<open>.ts\<close>, \<^verbatim>\<open>.tsx\<close>, \<^verbatim>\<open>.js\<close> or \<^verbatim>\<open>.jsx\<close> (the regular expression
  \<^verbatim>\<open>/\.(tsx?|jsx?)$/\<close>), behind \<^verbatim>\<open>../\<close>.
\<close>

definition stripExtension :: "string \<Rightarrow> string" where
  "stripExtension f =
     (if endsWith f ''.tsx'' \<or> endsWith f ''.jsx'' then take (length f - 4) f
      else if endsWith f ''.ts'' \<or> endsWith f ''.js'' then take (length f - 3) f
      else f)"

definition getImportPath :: "string \<Rightarrow> string" where
  "getImportPath path = ''../'' @ stripExtension (last (str_split CHR ''/'' path))"

text \<open>\<^verbatim>\<open>getExpectedRole\<close>: keyword lookup in the lower-cased component name.\<close>

definition getExpectedRole :: "ComponentAnalysis \<Rightarrow> string" where
  "getExpectedRole analysis =
     (let cn = toLowerCase (componentName analysis) in
      if str_includes cn ''button'' then ''button''
      else if str_includes cn ''input'' then ''textbox''
      else if str_includes cn ''select'' then ''combobox''
      else if str_includes cn ''checkbox'' then ''checkbox''
      else if str_includes cn ''radio'' then ''radio''
      else if str_includes cn ''link'' then ''link''
      else ''button'')"

text \<open>
  \<^verbatim>\<open>getExpectedClassName\<close>: \<^verbatim>\<open>name.replace(/([A-Z])/g, '-$1').toLowerCase()\<close>.
\<close>

definition getExpectedClassName :: "string \<Rightarrow> string" where
  "getExpectedClassName nm =
     toLowerCase (concat (map (\<lambda>c. if isUpper c then [CHR ''-'', c] else [c]) nm))"

text \<open>\<^verbatim>\<open>capitalize\<close>: \<^verbatim>\<open>str.charAt(0).toUpperCase() + str.slice(1)\<close>.\<close>

fun capitalize :: "string \<Rightarrow> string" where
  "capitalize [] = []"
| "capitalize (c # cs) = toUpperChar c # cs"

text \<open>\<^verbatim>\<open>v.trim().replace(/['"]/g, '')\<close>: trimmed, with every quote character removed.\<close>

definition stripQuotes :: "string \<Rightarrow> string" where
  "stripQuotes v = filter (\<lambda>c. c \<noteq> CHR 0x27 \<and> c \<noteq> CHR 0x22) (trim v)"

text \<open>
  \<^verbatim>\<open>getDefaultPropValue(prop, inline)\<close>. The \<^verbatim>\<open>switch\<close> compares the whole type
  text; the \<^verbatim>\<open>default\<close> branch looks inside it.
\<close>

definition getDefaultPropValue :: "PropDefinition \<Rightarrow> bool \<Rightarrow> string" where
  \<open>getDefaultPropValue prop inline =
     (let prefix = (if inline then prop_name prop @ ''='' else '''') in
      if prop_type prop = ''string'' then
        (if prop_name prop = ''label'' then prefix @ ''"Test Label"''
         else if prop_name prop = ''text'' then prefix @ ''"Test Text"''
         else prefix @ ''"test-'' @ prop_name prop @ ''"'')
      else if prop_type prop = ''boolean'' then
        (if inline then prop_name prop else ''true'')
      else if prop_type prop = ''number'' then prefix @ ''{0}''
      else if str_includes (prop_type prop) callbackMarker then
        (if inline then prop_name prop @ ''={() => {}}'' else ''() => {}'')
      else if str_includes (prop_type prop) ''|'' then
        prefix @ ''"'' @ stripQuotes (hd (str_split CHR ''|'' (prop_type prop))) @ ''"''
      else prefix @ ''"test-'' @ prop_name prop @ ''"'')\<close>

text \<open>
  \<^verbatim>\<open>overrides[prop.name]\<close> on an object literal finds the object's own entries and,
  for a name that is none of them, the member of \<^verbatim>\<open>Object.prototype\<close> of that name.
  Such a member is truthy, and the template renders it as text: a built-in function as
  \<^verbatim>\<open>function f() { [native code] }\<close>, the prototype object as \<^verbatim>\<open>[object Object]\<close>.
\<close>

definition nativeFunctionText :: "string \<Rightarrow> string" where
  \<open>nativeFunctionText f = ''function '' @ f @ ''() { [native code] }''\<close>

definition objectPrototypeText :: "string \<Rightarrow> string option" where
  \<open>objectPrototypeText k =
     (if k = ''constructor'' then Some (nativeFunctionText ''Object'')
      else if k = ''__proto__'' then Some ''[object Object]''
      else if k \<in> set [''__defineGetter__'', ''__defineSetter__'', ''hasOwnProperty'',
                        ''__lookupGetter__'', ''__lookupSetter__'', ''isPrototypeOf'',
                        ''propertyIsEnumerable'', ''toString'', ''valueOf'',
                        ''toLocaleString'']
      then Some (nativeFunctionText k)
      else None)\<close>

text \<open>
  \<^verbatim>\<open>overrides[prop.name] || fallback\<close>: the empty string is falsy.
\<close>

definition overrideOr :: "(string \<times> string) list \<Rightarrow> string \<Rightarrow> string \<Rightarrow> string" where
  "overrideOr overrides k fallback =
     (case map_of overrides k of
        Some v \<Rightarrow> (if v = [] then fallback else v)
      | None \<Rightarrow> (case objectPrototypeText k of Some v \<Rightarrow> v | None \<Rightarrow> fallback))"

text \<open>\<^verbatim>\<open>getRequiredPropsObject(analysis, overrides)\<close>\<close>

definition requiredPropEntry :: "(string \<times> string) list \<Rightarrow> PropDefinition \<Rightarrow> string" where
  \<open>requiredPropEntry overrides prop =
     (let v = overrideOr overrides (prop_name prop) (getDefaultPropValue prop False) in
      if str_includes (prop_type prop) callbackMarker then prop_name prop @ '': () => {}''
      else if prop_type prop = ''boolean'' then prop_name prop @ '': true''
      else if prop_type prop = ''number'' then prop_name prop @ '': 0''
      else prop_name prop @ '': '' @ v)\<close>

definition getRequiredPropsObject :: "ComponentAnalysis \<Rightarrow> (string \<times> string) list \<Rightarrow> string" where
  \<open>getRequiredPropsObject analysis overrides =
     (let requiredProps = filter (\<lambda>prop. \<not> prop_optional prop) (props analysis) in
      if length requiredProps = 0 then ''{}''
      else ''{ '' @ str_join '', '' (map (requiredPropEntry overrides) requiredProps) @ '' }'')\<close>

text \<open>\<^verbatim>\<open>createBasicRenderTest\<close>\<close>

definition createBasicRenderTest :: "ComponentAnalysis \<Rightarrow> TestCase" where
  \<open>createBasicRenderTest analysis =
     (let requiredProps =
            str_join '' ''
              (map (\<lambda>prop. if str_includes (prop_type prop) callbackMarker
                             then prop_name prop @ ''={() => {}}''
                             else getDefaultPropValue prop True)
                   (filter (\<lambda>prop. \<not> prop_optional prop) (props analysis)))
      in \<lparr> tc_name = ''should render '' @ componentName analysis @ '' component'',
           tc_description = ''Test that the '' @ componentName analysis
              @ '' component renders without crashing'',
           tc_code = ''\<newline>    it("should render '' @ componentName analysis
              @ '' component", () => {\<newline>        render(<'' @ componentName analysis
              @ '' '' @ requiredProps
              @ '' />);\<newline>        \<newline>        expect(screen.getByRole("''
              @ getExpectedRole analysis
              @ ''")).toBeInTheDocument();\<newline>    });'' \<rparr>)\<close>

text \<open>\<^verbatim>\<open>createPropTests\<close>: the three blocks, in the order of the source.\<close>

definition booleanPropTest :: "PropDefinition \<Rightarrow> ComponentAnalysis \<Rightarrow> TestCase" where
  \<open>booleanPropTest prop analysis =
     \<lparr> tc_name = ''should handle '' @ prop_name prop @ '' prop'',
       tc_description = ''Test that the '' @ prop_name prop @ '' boolean prop works correctly'',
       tc_code = ''\<newline>    it("should handle '' @ prop_name prop
          @ '' prop", () => {\<newline>        const requiredProps = ''
          @ getRequiredPropsObject analysis []
          @ '';\<newline>        \<newline>        render(<'' @ componentName analysis
          @ '' {...requiredProps} '' @ prop_name prop
          @ '' />);\<newline>        \<newline>        const element = screen.getByRole("''
          @ getExpectedRole analysis
          @ ''");\<newline>        expect(element).toHaveClass("''
          @ getExpectedClassName (prop_name prop) @ ''");\<newline>    });'' \<rparr>\<close>

definition stringPropTest :: "PropDefinition \<Rightarrow> ComponentAnalysis \<Rightarrow> TestCase" where
  \<open>stringPropTest prop analysis =
     \<lparr> tc_name = ''should display correct '' @ prop_name prop,
       tc_description = ''Test that the '' @ prop_name prop @ '' string prop displays correctly'',
       tc_code = ''\<newline>    it("should display correct '' @ prop_name prop
          @ ''", () => {\<newline>        const test'' @ capitalize (prop_name prop)
          @ '' = "Test '' @ prop_name prop
          @ ''";\<newline>        const requiredProps = '' @ getRequiredPropsObject analysis []
          @ '';\<newline>        \<newline>        render(<'' @ componentName analysis
          @ '' {...requiredProps} '' @ prop_name prop @ ''={test'' @ capitalize (prop_name prop)
          @ ''} />);\<newline>        \<newline>        expect(screen.getByText(test''
          @ capitalize (prop_name prop) @ '')).toBeInTheDocument();\<newline>    });'' \<rparr>\<close>

definition unionValueTest :: "PropDefinition \<Rightarrow> ComponentAnalysis \<Rightarrow> string \<Rightarrow> TestCase" where
  \<open>unionValueTest prop analysis v =
     \<lparr> tc_name = ''should handle '' @ prop_name prop @ '' as '' @ v,
       tc_description = ''Test that the '' @ prop_name prop @ '' prop works with '' @ v @ '' value'',
       tc_code = ''\<newline>    it("should handle '' @ prop_name prop @ '' as '' @ v
          @ ''", () => {\<newline>        const requiredProps = ''
          @ getRequiredPropsObject analysis []
          @ '';\<newline>        \<newline>        render(<'' @ componentName analysis
          @ '' {...requiredProps} '' @ prop_name prop @ ''="'' @ v
          @ ''" />);\<newline>        \<newline>        const element = screen.getByRole("''
          @ getExpectedRole analysis
          @ ''");\<newline>        expect(element).toHaveClass("''
          @ getExpectedClassName (prop_name prop @ ''--'' @ v) @ ''");\<newline>    });'' \<rparr>\<close>

text \<open>
  The alternatives of a union type text:
  \<^verbatim>\<open>prop.type.split('|').map(v => v.trim().replace(/['"]/g, ''))\<close>.
\<close>

definition unionValues :: "string \<Rightarrow> string list" where
  "unionValues ty = map stripQuotes (str_split CHR ''|'' ty)"

definition createPropTests :: "PropDefinition \<Rightarrow> ComponentAnalysis \<Rightarrow> TestCase list" where
  \<open>createPropTests prop analysis =
     (if prop_type prop = ''boolean'' then [booleanPropTest prop analysis] else [])
     @ (if prop_type prop = ''string'' then [stringPropTest prop analysis] else [])
     @ (if str_includes (prop_type prop) ''|''
        then map (unionValueTest prop analysis) (unionValues (prop_type prop))
        else [])\<close>

text \<open>\<^verbatim>\<open>analysis.props.some(p => p.name === n)\<close>\<close>

definition hasProp :: "ComponentAnalysis \<Rightarrow> string \<Rightarrow> bool" where
  "hasProp analysis n = list_ex (\<lambda>p. prop_name p = n) (props analysis)"

text \<open>\<^verbatim>\<open>createEventTests\<close>: only a prop named \<^verbatim>\<open>onClick\<close> gets test cases.\<close>

definition onClickCalledTest :: "ComponentAnalysis \<Rightarrow> TestCase" where
  \<open>onClickCalledTest analysis =
     \<lparr> tc_name = ''should call onClick handler when clicked'',
       tc_description = ''Test that the onClick handler is called when the component is clicked'',
       tc_code = ''\<newline>    it("should call onClick handler when clicked", () => {\<newline>        const handleClick = jest.fn();\<newline>        const requiredProps = ''
          @ getRequiredPropsObject analysis [(''onClick'', ''handleClick'')]
          @ '';\<newline>        \<newline>        render(<'' @ componentName analysis
          @ '' {...requiredProps} onClick={handleClick} />);\<newline>        \<newline>        const element = screen.getByRole("''
          @ getExpectedRole analysis
          @ ''");\<newline>        fireEvent.click(element);\<newline>        \<newline>        expect(handleClick).toHaveBeenCalledTimes(1);\<newline>    });'' \<rparr>\<close>

definition onClickDisabledTest :: "ComponentAnalysis \<Rightarrow> TestCase" where
  \<open>onClickDisabledTest analysis =
     \<lparr> tc_name = ''should not call onClick when disabled'',
       tc_description = ''Test that the onClick handler is not called when the component is disabled'',
       tc_code = ''\<newline>    it("should not call onClick when disabled", () => {\<newline>        const handleClick = jest.fn();\<newline>        const requiredProps = ''
          @ getRequiredPropsObject analysis [(''onClick'', ''handleClick'')]
          @ '';\<newline>        \<newline>        render(<'' @ componentName analysis
          @ '' {...requiredProps} onClick={handleClick} disabled />);\<newline>        \<newline>        const element = screen.getByRole("''
          @ getExpectedRole analysis
          @ ''");\<newline>        fireEvent.click(element);\<newline>        \<newline>        expect(handleClick).not.toHaveBeenCalled();\<newline>    });'' \<rparr>\<close>

definition createEventTests :: "PropDefinition \<Rightarrow> ComponentAnalysis \<Rightarrow> TestCase list" where
  \<open>createEventTests prop analysis =
     (if prop_name prop = ''onClick''
      then [onClickCalledTest analysis]
           @ (if hasProp analysis ''disabled'' then [onClickDisabledTest analysis] else [])
      else [])\<close>

text \<open>\<^verbatim>\<open>createConditionalRenderingTests\<close>\<close>

definition loadingTest :: "ComponentAnalysis \<Rightarrow> TestCase" where
  \<open>loadingTest analysis =
     \<lparr> tc_name = ''should show loading state'',
       tc_description = ''Test that the loading state is displayed correctly'',
       tc_code = ''\<newline>    it("should show loading state", () => {\<newline>        const requiredProps = ''
          @ getRequiredPropsObject analysis []
          @ '';\<newline>        \<newline>        render(<'' @ componentName analysis
          @ '' {...requiredProps} loading />);\<newline>        \<newline>        expect(screen.getByRole("status", { hidden: true })).toBeInTheDocument();\<newline>    });'' \<rparr>\<close>

definition iconTest :: "ComponentAnalysis \<Rightarrow> TestCase" where
  \<open>iconTest analysis =
     \<lparr> tc_name = ''should render with icon'',
       tc_description = ''Test that the icon is rendered when provided'',
       tc_code = ''\<newline>    it("should render with icon", () => {\<newline>        const requiredProps = ''
          @ getRequiredPropsObject analysis []
          @ '';\<newline>        \<newline>        render(<'' @ componentName analysis
          @ '' {...requiredProps} icon="test-icon" />);\<newline>        \<newline>        const iconElement = screen.getByRole("img", { hidden: true }) || screen.getByTestId("icon");\<newline>        expect(iconElement).toBeInTheDocument();\<newline>    });'' \<rparr>\<close>

definition createConditionalRenderingTests :: "ComponentAnalysis \<Rightarrow> TestCase list" where
  \<open>createConditionalRenderingTests analysis =
     (if hasProp analysis ''loading'' then [loadingTest analysis] else [])
     @ (if hasProp analysis ''icon'' then [iconTest analysis] else [])\<close>

text \<open>\<^verbatim>\<open>createAccessibilityTests\<close>\<close>

definition keyboardTest :: "ComponentAnalysis \<Rightarrow> TestCase" where
  \<open>keyboardTest analysis =
     \<lparr> tc_name = ''should be accessible via keyboard'',
       tc_description = ''Test that the component supports keyboard navigation'',
       tc_code = ''\<newline>    it("should be accessible via keyboard", () => {\<newline>        const requiredProps = ''
          @ getRequiredPropsObject analysis []
          @ '';\<newline>        \<newline>        render(<'' @ componentName analysis
          @ '' {...requiredProps} />);\<newline>        \<newline>        const element = screen.getByRole("''
          @ getExpectedRole analysis
          @ ''");\<newline>        expect(element).not.toHaveAttribute("tabIndex", "-1");\<newline>    });'' \<rparr>\<close>

definition ariaDisabledTest :: "ComponentAnalysis \<Rightarrow> TestCase" where
  \<open>ariaDisabledTest analysis =
     \<lparr> tc_name = ''should have correct aria-disabled when disabled'',
       tc_description = ''Test that aria-disabled is set correctly when disabled'',
       tc_code = ''\<newline>    it("should have correct aria-disabled when disabled", () => {\<newline>        const requiredProps = ''
          @ getRequiredPropsObject analysis []
          @ '';\<newline>        \<newline>        render(<'' @ componentName analysis
          @ '' {...requiredProps} disabled />);\<newline>        \<newline>        const element = screen.getByRole("''
          @ getExpectedRole analysis
          @ ''");\<newline>        expect(element).toBeDisabled();\<newline>    });'' \<rparr>\<close>

definition createAccessibilityTests :: "ComponentAnalysis \<Rightarrow> TestCase list" where
  \<open>createAccessibilityTests analysis =
     [keyboardTest analysis]
     @ (if hasProp analysis ''disabled'' then [ariaDisabledTest analysis] else [])\<close>

text \<open>
  \<^verbatim>\<open>generateTestCases\<close>: the five groups, pushed in this order.
\<close>

definition isEventProp :: "PropDefinition \<Rightarrow> bool" where
  "isEventProp prop =
     (startsWith (prop_name prop) ''on'' \<or> str_includes (prop_type prop) callbackMarker)"

definition generateTestCases :: "ComponentAnalysis \<Rightarrow> TestCase list" where
  "generateTestCases analysis =
     [createBasicRenderTest analysis]
     @ concat (map (\<lambda>prop. createPropTests prop analysis) (props analysis))
     @ concat (map (\<lambda>prop. createEventTests prop analysis) (filter isEventProp (props analysis)))
     @ createConditionalRenderingTests analysis
     @ createAccessibilityTests analysis"

text \<open>\<^verbatim>\<open>generateImports\<close>, \<^verbatim>\<open>buildTestFile\<close> and \<^verbatim>\<open>generate\<close>\<close>

definition generateImports :: "string \<Rightarrow> string \<Rightarrow> string" where
  \<open>generateImports importPath cn =
     ''import React from "react";\<newline>import { render, screen, fireEvent } from "@testing-library/react";\<newline>import "@testing-library/jest-dom";\<newline>import { ''
     @ cn @ '' } from "'' @ importPath @ ''";''\<close>

definition buildTestFile :: "string \<Rightarrow> string \<Rightarrow> TestCase list \<Rightarrow> ComponentAnalysis \<Rightarrow> string" where
  \<open>buildTestFile cn importPath testCases analysis =
     (let importLines = generateImports importPath cn;
          testSuite = str_join ''\<newline>'' (map tc_code testCases)
      in importLines @ ''\<newline>\<newline>/**\<newline> * Test suite for the '' @ cn
         @ '' component.\<newline> */\<newline>describe("'' @ cn
         @ '' Component", () => {'' @ testSuite @ ''\<newline>});\<newline>'')\<close>

definition generate :: "ComponentAnalysis \<Rightarrow> string \<Rightarrow> string" where
  "generate analysis path =
     buildTestFile (componentName analysis) (getImportPath path)
       (generateTestCases analysis) analysis"
section \<open>The source analyzer\<close>

text \<open>
  The analyzer walks the syntax tree that the TypeScript parser returns. The parser is not
  part of the repository, so the model starts at the tree. A node carries its kind, with
  the attributes of the node that the analyzer reads, and its children in the order in
  which \<^verbatim>\<open>ts.forEachChild\<close> visits them.
\<close>

text \<open>
  A member of an interface or of a type literal: a property signature with the source text
  of its name, its question token, the source text of its type annotation and the comment
  of its first JSDoc block; or a member of another kind (a method, call, construct or
  index signature).
\<close>

datatype Member =
  PropertySignature (memberName: string) (questionToken: bool) (typeText: "string option")
    (jsDocComment: "string option")
| OtherMember

text \<open>The import clause: the default import, and the named or namespace bindings.\<close>

datatype NamedBindings = NamedImports "string list" | NamespaceImport string

datatype ImportClause = ImportClause (clauseName: "string option") (namedBindings: "NamedBindings option")

text \<open>The name of a variable declaration, and the kind of its initializer.\<close>

datatype BindingName = Identifier string | BindingPattern

datatype Initializer = InitArrowFunction | InitFunctionExpression | InitOther

text \<open>
  The kinds that \<^verbatim>\<open>visit\<close> tells apart. A type alias carries the members of its type
  when that is a type literal; an export assignment carries its expression when that is
  an identifier.
\<close>

datatype Kind =
  ImportDeclaration string "ImportClause option"
| InterfaceDeclaration string "Member list"
| TypeAliasDeclaration string "(Member list) option"
| FunctionDeclaration "string option"
| ArrowFunction
| FunctionExpression
| VariableDeclaration BindingName "Initializer option"
| ExportAssignment "string option"
| OtherKind

datatype Node = Node Kind "Node list"

text \<open>\<^verbatim>\<open>/^[A-Z]/.test(name)\<close>\<close>

fun startsUpper :: "string \<Rightarrow> bool" where
  "startsUpper [] = False"
| "startsUpper (c # cs) = isUpper c"

text \<open>\<^verbatim>\<open>if (!analysis.exports.includes(n)) analysis.exports.push(n)\<close>\<close>

definition addExport :: "string \<Rightarrow> ComponentAnalysis \<Rightarrow> ComponentAnalysis" where
  "addExport n analysis =
     (if n \<in> set (exports analysis) then analysis
      else analysis\<lparr> exports := exports analysis @ [n] \<rparr>)"

text \<open>What both \<^verbatim>\<open>analyzeFunction\<close> and \<^verbatim>\<open>analyzeVariableDeclaration\<close> do with a component name.\<close>

definition recordComponent :: "string \<Rightarrow> ComponentAnalysis \<Rightarrow> ComponentAnalysis" where
  "recordComponent n analysis =
     addExport n (analysis\<lparr> componentName := n, componentType := functional \<rparr>)"

text \<open>\<^verbatim>\<open>analyzeImport\<close>\<close>

definition importedNames :: "ImportClause option \<Rightarrow> string list" where
  "importedNames clause =
     (case clause of
        None \<Rightarrow> []
      | Some (ImportClause nm bindings) \<Rightarrow>
          (case nm of None \<Rightarrow> [] | Some n \<Rightarrow> [n])
          @ (case bindings of
               None \<Rightarrow> []
             | Some (NamedImports elements) \<Rightarrow> elements
             | Some (NamespaceImport n) \<Rightarrow> [n]))"

definition importIsDefault :: "ImportClause option \<Rightarrow> bool" where
  "importIsDefault clause =
     (case clause of
        None \<Rightarrow> False
      | Some (ImportClause nm bindings) \<Rightarrow> nm \<noteq> None)"

definition analyzeImport :: "string \<Rightarrow> ImportClause option \<Rightarrow> ComponentAnalysis \<Rightarrow> ComponentAnalysis" where
  "analyzeImport moduleSpecifier clause analysis =
     analysis\<lparr> importInfos := importInfos analysis
        @ [\<lparr> import_source = moduleSpecifier, import_names = importedNames clause,
              isDefault = importIsDefault clause \<rparr>] \<rparr>"

text \<open>
  The loop over the members in \<^verbatim>\<open>analyzeInterface\<close> and \<^verbatim>\<open>analyzeTypeAlias\<close>: a
  property signature pushes a prop, any other member is passed over.
\<close>

fun pushMember :: "Member \<Rightarrow> ComponentAnalysis \<Rightarrow> ComponentAnalysis" where
  \<open>pushMember (PropertySignature nm opt ty doc) analysis =
     analysis\<lparr> props := props analysis
        @ [\<lparr> prop_name = nm,
              prop_type = (case ty of Some t \<Rightarrow> t | None \<Rightarrow> ''any''),
              prop_optional = opt,
              prop_defaultValue = None, prop_description = doc \<rparr>] \<rparr>\<close>
| \<open>pushMember OtherMember analysis = analysis\<close>

definition analyzeInterface :: "string \<Rightarrow> Member list \<Rightarrow> ComponentAnalysis \<Rightarrow> ComponentAnalysis" where
  \<open>analyzeInterface interfaceName members analysis =
     (if endsWith interfaceName ''Props'' then fold pushMember members analysis else analysis)\<close>

definition analyzeTypeAlias ::
  "string \<Rightarrow> (Member list) option \<Rightarrow> ComponentAnalysis \<Rightarrow> ComponentAnalysis" where
  \<open>analyzeTypeAlias aliasName literalMembers analysis =
     (case literalMembers of
        Some members \<Rightarrow>
          (if endsWith aliasName ''Props'' then fold pushMember members analysis else analysis)
      | None \<Rightarrow> analysis)\<close>

text \<open>
  \<^verbatim>\<open>analyzeFunction\<close>, for a function declaration, an arrow function or a function
  expression; \<open>parent\<close> is the kind of \<^verbatim>\<open>node.parent\<close>.
\<close>

definition functionNameOf :: "Kind option \<Rightarrow> Kind \<Rightarrow> string" where
  "functionNameOf parent k =
     (case k of
        FunctionDeclaration (Some n) \<Rightarrow> n
      | _ \<Rightarrow> (case parent of
                Some (VariableDeclaration (Identifier n) ini) \<Rightarrow> n
              | _ \<Rightarrow> []))"

definition analyzeFunction :: "Kind option \<Rightarrow> Kind \<Rightarrow> ComponentAnalysis \<Rightarrow> ComponentAnalysis" where
  "analyzeFunction parent k analysis =
     (let functionName = functionNameOf parent k in
      if functionName \<noteq> [] \<and> startsUpper functionName
      then recordComponent functionName analysis
      else analysis)"

text \<open>\<^verbatim>\<open>analyzeVariableDeclaration\<close>\<close>

definition analyzeVariableDeclaration ::
  "BindingName \<Rightarrow> Initializer option \<Rightarrow> ComponentAnalysis \<Rightarrow> ComponentAnalysis" where
  "analyzeVariableDeclaration nm ini analysis =
     (case nm of
        Identifier n \<Rightarrow>
          (if startsUpper n \<and> (ini = Some InitArrowFunction \<or> ini = Some InitFunctionExpression)
           then recordComponent n analysis
           else analysis)
      | BindingPattern \<Rightarrow> analysis)"

text \<open>\<^verbatim>\<open>analyzeExportAssignment\<close>\<close>

definition analyzeExportAssignment :: "string option \<Rightarrow> ComponentAnalysis \<Rightarrow> ComponentAnalysis" where
  "analyzeExportAssignment expr analysis =
     (case expr of
        Some exportName \<Rightarrow> addExport exportName (analysis\<lparr> hasDefaultExport := True \<rparr>)
      | None \<Rightarrow> analysis)"

text \<open>The \<^verbatim>\<open>switch\<close> of \<^verbatim>\<open>visit\<close>.\<close>

definition analyzeNode :: "Kind option \<Rightarrow> Kind \<Rightarrow> ComponentAnalysis \<Rightarrow> ComponentAnalysis" where
  "analyzeNode parent k analysis =
     (case k of
        ImportDeclaration moduleSpecifier clause \<Rightarrow> analyzeImport moduleSpecifier clause analysis
      | InterfaceDeclaration n members \<Rightarrow> analyzeInterface n members analysis
      | TypeAliasDeclaration n literalMembers \<Rightarrow> analyzeTypeAlias n literalMembers analysis
      | FunctionDeclaration n \<Rightarrow> analyzeFunction parent k analysis
      | ArrowFunction \<Rightarrow> analyzeFunction parent k analysis
      | FunctionExpression \<Rightarrow> analyzeFunction parent k analysis
      | VariableDeclaration nm ini \<Rightarrow> analyzeVariableDeclaration nm ini analysis
      | ExportAssignment expr \<Rightarrow> analyzeExportAssignment expr analysis
      | OtherKind \<Rightarrow> analysis)"

text \<open>\<^verbatim>\<open>visit\<close>: the node itself, then its children from left to right.\<close>

fun visit :: "Kind option \<Rightarrow> Node \<Rightarrow> ComponentAnalysis \<Rightarrow> ComponentAnalysis"
  and visitChildren :: "Kind option \<Rightarrow> Node list \<Rightarrow> ComponentAnalysis \<Rightarrow> ComponentAnalysis" where
  "visit parent (Node k children) analysis = visitChildren (Some k) children (analyzeNode parent k analysis)"
| "visitChildren parent [] analysis = analysis"
| "visitChildren parent (c # cs) analysis = visitChildren parent cs (visit parent c analysis)"

text \<open>\<^verbatim>\<open>analyze\<close>, on the parsed source file; the root has no parent.\<close>

definition analyze :: "Node \<Rightarrow> string \<Rightarrow> ComponentAnalysis" where
  "analyze sourceFile path =
     visit None sourceFile
       \<lparr> componentName = [], componentType = functional, props = [], exports = [],
         importInfos = [], hasDefaultExport = False, filePath = path \<rparr>"

text \<open>
  The nodes in the order of the traversal, each with the kind of its parent; the name
  under which a node counts as a component; and the props that a declaration contributes.
\<close>

fun preorder :: "Kind option \<Rightarrow> Node \<Rightarrow> (Kind option \<times> Kind) list"
  and preorderAll :: "Kind option \<Rightarrow> Node list \<Rightarrow> (Kind option \<times> Kind) list" where
  "preorder parent (Node k children) = (parent, k) # preorderAll (Some k) children"
| "preorderAll parent [] = []"
| "preorderAll parent (c # cs) = preorder parent c @ preorderAll parent cs"

fun isFunctionLike :: "Initializer option \<Rightarrow> bool" where
  "isFunctionLike (Some InitArrowFunction) = True"
| "isFunctionLike (Some InitFunctionExpression) = True"
| "isFunctionLike _ = False"

fun boundName :: "Kind option \<Rightarrow> string option" where
  "boundName (Some (VariableDeclaration (Identifier n) ini)) = Some n"
| "boundName _ = None"

fun declaredName :: "Kind option \<times> Kind \<Rightarrow> string option" where
  "declaredName (parent, FunctionDeclaration (Some n)) = Some n"
| "declaredName (parent, FunctionDeclaration None) = boundName parent"
| "declaredName (parent, ArrowFunction) = boundName parent"
| "declaredName (parent, FunctionExpression) = boundName parent"
| "declaredName (parent, VariableDeclaration (Identifier n) ini) =
     (if isFunctionLike ini then Some n else None)"
| "declaredName (parent, k) = None"

definition componentNames :: "Node \<Rightarrow> string list" where
  "componentNames sourceFile =
     filter startsUpper (List.map_filter declaredName (preorder None sourceFile))"

fun memberProps :: "Member \<Rightarrow> PropDefinition list" where
  \<open>memberProps (PropertySignature nm opt ty doc) =
     [\<lparr> prop_name = nm, prop_type = (case ty of Some t \<Rightarrow> t | None \<Rightarrow> ''any''),
        prop_optional = opt, prop_defaultValue = None, prop_description = doc \<rparr>]\<close>
| \<open>memberProps OtherMember = []\<close>

fun declaredProps :: "Kind option \<times> Kind \<Rightarrow> PropDefinition list" where
  \<open>declaredProps (parent, InterfaceDeclaration n members) =
     (if endsWith n ''Props'' then concat (map memberProps members) else [])\<close>
| \<open>declaredProps (parent, TypeAliasDeclaration n (Some members)) =
     (if endsWith n ''Props'' then concat (map memberProps members) else [])\<close>
| \<open>declaredProps (parent, k) = []\<close>

text \<open>The traversal as a fold: what \<^verbatim>\<open>visit\<close> does at one node, given the kind of its parent.\<close>

definition step :: "Kind option \<times> Kind \<Rightarrow> ComponentAnalysis \<Rightarrow> ComponentAnalysis" where
  "step pk = analyzeNode (fst pk) (snd pk)"

definition upperNames :: "(Kind option \<times> Kind) list \<Rightarrow> string list" where
  "upperNames xs = filter startsUpper (List.map_filter declaredName xs)"

fun isPropertySignature :: "Member \<Rightarrow> bool" where
  "isPropertySignature (PropertySignature nm opt ty doc) = True"
| "isPropertySignature OtherMember = False"

text \<open>
  The function declarations among the statements of a source file, which are the children
  of its node: their upper-case names, in order.
\<close>

fun functionDeclarationName :: "Node \<Rightarrow> string option" where
  "functionDeclarationName (Node (FunctionDeclaration n) children) = n"
| "functionDeclarationName (Node k children) = None"

fun topLevelFunctionNames :: "Node \<Rightarrow> string list" where
  "topLevelFunctionNames (Node k statements) =
     filter startsUpper (List.map_filter functionDeclarationName statements)"

subsection \<open>Source files used as examples\<close>

text \<open>
  A leaf of no interest to the analyzer (an identifier, a keyword, a token), and the
  exported variable statement with its declaration list around a variable declaration.
  A source file ends with its end-of-file token.
\<close>

definition leaf :: Node where
  "leaf = Node OtherKind []"

definition variableStatement :: "Node \<Rightarrow> Node" where
  "variableStatement declaration = Node OtherKind [leaf, Node OtherKind [declaration]]"

text \<open>
  \<^verbatim>\<open>export function Header() { return null; }\<close>
  \<^verbatim>\<open>export const Footer = () => null;\<close>
\<close>

definition twoComponents :: Node where
  \<open>twoComponents =
     Node OtherKind
       [Node (FunctionDeclaration (Some ''Header''))
          [leaf, leaf, Node OtherKind [Node OtherKind [leaf]]],
        variableStatement
          (Node (VariableDeclaration (Identifier ''Footer'') (Some InitArrowFunction))
             [leaf, Node ArrowFunction [leaf, leaf]]),
        leaf]\<close>

text \<open>
  \<^verbatim>\<open>function Header() { return null; }\<close>
  \<^verbatim>\<open>function Footer() { function Row() { return null; } return null; }\<close>
\<close>

definition nestedComponent :: Node where
  \<open>nestedComponent =
     Node OtherKind
       [Node (FunctionDeclaration (Some ''Header''))
          [leaf, Node OtherKind [Node OtherKind [leaf]]],
        Node (FunctionDeclaration (Some ''Footer''))
          [leaf,
           Node OtherKind
             [Node (FunctionDeclaration (Some ''Row''))
                [leaf, Node OtherKind [Node OtherKind [leaf]]],
              Node OtherKind [leaf]]],
        leaf]\<close>

text \<open>
  \<^verbatim>\<open>interface ButtonProps { label: string; onClick(): void; }\<close>
  \<^verbatim>\<open>type CardProps = ButtonProps & { title: string };\<close>
\<close>

definition methodMember :: Node where
  \<open>methodMember =
     Node OtherKind
       [Node (InterfaceDeclaration ''ButtonProps''
                [PropertySignature ''label'' False (Some ''string'') None, OtherMember])
          [leaf, Node OtherKind [leaf, leaf], Node OtherKind [leaf, leaf]],
        Node (TypeAliasDeclaration ''CardProps'' None)
          [leaf,
           Node OtherKind [Node OtherKind [leaf], Node OtherKind [Node OtherKind [leaf, leaf]]]],
        leaf]\<close>

text \<open>
  \<^verbatim>\<open>interface BaseProps { title: string; }\<close>
  \<^verbatim>\<open>type CardProps = { title?: string; size; };\<close>
\<close>

definition twoContracts :: Node where
  \<open>twoContracts =
     Node OtherKind
       [Node (InterfaceDeclaration ''BaseProps''
                [PropertySignature ''title'' False (Some ''string'') None])
          [leaf, Node OtherKind [leaf, leaf]],
        Node (TypeAliasDeclaration ''CardProps''
                (Some [PropertySignature ''title'' True (Some ''string'') None,
                       PropertySignature ''size'' False None None]))
          [leaf, Node OtherKind [Node OtherKind [leaf, leaf, leaf], Node OtherKind [leaf]]],
        leaf]\<close>

subsection \<open>Models used as examples\<close>


definition mkProp :: "string \<Rightarrow> string \<Rightarrow> bool \<Rightarrow> PropDefinition" where
  "mkProp n ty opt = \<lparr> prop_name = n, prop_type = ty, prop_optional = opt,
     prop_defaultValue = None, prop_description = None \<rparr>"

definition mkModel :: "string \<Rightarrow> PropDefinition list \<Rightarrow> ComponentAnalysis" where
  "mkModel n ps = \<lparr> componentName = n, componentType = functional, props = ps,
     exports = [n], importInfos = [], hasDefaultExport = False, filePath = '''' \<rparr>"

text \<open>
  The model of the README's example: a required string \<^verbatim>\<open>label\<close>, a required callback
  \<^verbatim>\<open>onClick\<close> and an optional boolean \<^verbatim>\<open>disabled\<close>, under any component name.
\<close>

definition scenarioA :: "string \<Rightarrow> ComponentAnalysis" where
  \<open>scenarioA n = mkModel n [mkProp ''label'' ''string'' False,
     mkProp ''onClick'' ''() => void'' False, mkProp ''disabled'' ''boolean'' True]\<close>



text \<open>A component whose only prop is a required zero-argument callback \<^verbatim>\<open>onChange\<close>.\<close>

definition onChangeModel :: ComponentAnalysis where
  \<open>onChangeModel = mkModel ''Input'' [mkProp ''onChange'' ''() => void'' False]\<close>

section \<open>The verifier\<close>

text \<open>
  \<^verbatim>\<open>runTests\<close> spawns the candidate commands one after the other and listens to two
  events of each process, \<^verbatim>\<open>error\<close> and \<^verbatim>\<open>close\<close>. What a spawned command does is the
  environment's part: \<^verbatim>\<open>spawn\<close> is a parameter that gives, for a command, its arguments
  and the working directory, what the process delivers to the two handlers.
  \<^item> A command that starts delivers \<^verbatim>\<open>close\<close> when it has ended, with the exit code
    (\<^verbatim>\<open>null\<close> after a signal); by then all its output has arrived.
  \<^item> A command that fails to start delivers \<^verbatim>\<open>error\<close> on the next tick and, once its
    pipes are closed, \<^verbatim>\<open>close\<close> with a negative error code and no output. The handler
    of \<^verbatim>\<open>error\<close> spawns the next candidate at once, so the \<^verbatim>\<open>error\<close> of a candidate
    that fails to start in its turn comes before that \<^verbatim>\<open>close\<close>: the failures of
    successive candidates are handled in a row, and the \<^verbatim>\<open>close\<close> events of the failed
    processes come after them. They come before the \<^verbatim>\<open>close\<close> of a candidate that
    started, which has a process to run first.
\<close>

datatype spawnOutcome =
  FailedToStart
| Closed (exitCode: "int option") (stdoutText: string) (stderrText: string)

type_synonym spawner = "string \<Rightarrow> string list \<Rightarrow> string \<Rightarrow> spawnOutcome"

text \<open>The result of \<^verbatim>\<open>runTests\<close>; its field \<^verbatim>\<open>output\<close> is \<open>outputText\<close>.\<close>

record TestResult =
  success :: bool
  errors :: string
  outputText :: string

text \<open>The candidate command lines, in order of preference.\<close>

definition testCommands :: "string \<Rightarrow> (string list) list" where
  \<open>testCommands testFilePath =
     [[''npx'', ''jest'', testFilePath, ''--no-coverage'', ''--verbose''],
      [''npm'', ''test'', ''--'', testFilePath],
      [''npx'', ''vitest'', ''run'', testFilePath],
      [''yarn'', ''test'', testFilePath]]\<close>

definition noRunnerMessage :: string where
  \<open>noRunnerMessage =
     ''No suitable test runner found. Please ensure Jest, Vitest, or npm test is available.''\<close>

definition noRunnerResult :: TestResult where
  "noRunnerResult = \<lparr> success = False, errors = noRunnerMessage, outputText = [] \<rparr>"

text \<open>
  The promise that \<^verbatim>\<open>runTests\<close> returns is \<open>None\<close> while it is pending. \<^verbatim>\<open>resolve\<close>
  settles a pending promise and leaves a settled one as it is.
\<close>

definition resolve :: "TestResult \<Rightarrow> TestResult option \<Rightarrow> TestResult option" where
  "resolve r promise = (case promise of None \<Rightarrow> Some r | Some first \<Rightarrow> Some first)"

text \<open>
  The handler of \<^verbatim>\<open>close\<close>: it resolves the promise, or it goes on to the next candidate
  when the output holds a shell's complaint about a missing command.
\<close>

datatype closeAction = Resolve TestResult | TryNext

definition onClose :: "int option \<Rightarrow> string \<Rightarrow> closeAction" where
  \<open>onClose code outp =
     (if code = Some 0 then Resolve \<lparr> success = True, errors = [], outputText = outp \<rparr>
      else if str_includes outp ''command not found'' \<or> str_includes outp ''is not recognized''
      then TryNext
      else Resolve \<lparr> success = False, errors = outp, outputText = outp \<rparr>)\<close>

text \<open>
  The \<^verbatim>\<open>close\<close> of a process that failed to start: the code is the negated error number
  (that of a missing command is 2) and there is no output, so the handler takes its last
  branch and resolves the promise with a failure whose texts are empty. \<open>closePending\<close>
  delivers this event when it is still to come.
\<close>

definition spawnErrorCode :: int where
  "spawnErrorCode = - 2"

definition failedStartResult :: TestResult where
  "failedStartResult = \<lparr> success = False, errors = [], outputText = [] \<rparr>"

definition closePending :: "bool \<Rightarrow> TestResult option \<Rightarrow> TestResult option" where
  "closePending pendingClose promise =
     (if pendingClose then resolve failedStartResult promise else promise)"

text \<open>
  \<^verbatim>\<open>tryNextCommand\<close>, with \<^verbatim>\<open>commandIndex\<close> and the state of the promise as arguments;
  \<open>pendingClose\<close> tells whether a process that failed to start has its \<^verbatim>\<open>close\<close> still
  to come. Every candidate has a command name in front
  (\<^verbatim>\<open>const [command, ...args] = testCommands[commandIndex]\<close>). The handler of \<^verbatim>\<open>error\<close>
  adds one to the index and calls \<^verbatim>\<open>tryNextCommand\<close>, which resolves the promise at once
  when no candidate is left and spawns the next candidate otherwise.
\<close>

function tryNextCommand ::
  "spawner \<Rightarrow> (string list) list \<Rightarrow> string \<Rightarrow> nat \<Rightarrow> bool \<Rightarrow> TestResult option
     \<Rightarrow> TestResult option" where
  \<open>tryNextCommand spawn commands projectRoot commandIndex pendingClose promise =
     (if commandIndex \<ge> length commands
      then closePending pendingClose (resolve noRunnerResult promise)
      else
        (case spawn (hd (commands ! commandIndex)) (tl (commands ! commandIndex)) projectRoot of
           FailedToStart \<Rightarrow>
             tryNextCommand spawn commands projectRoot (commandIndex + 1) True promise
         | Closed code out err \<Rightarrow>
             (case onClose code (out @ err) of
                Resolve r \<Rightarrow> resolve r (closePending pendingClose promise)
              | TryNext \<Rightarrow>
                  tryNextCommand spawn commands projectRoot (commandIndex + 1) False
                    (closePending pendingClose promise))))\<close>
  by pat_completeness auto
termination
  by (relation "measure (\<lambda>(spawn, commands, projectRoot, commandIndex, pendingClose, promise).
        length commands - commandIndex)")
     auto

declare tryNextCommand.simps [simp del]

text \<open>\<^verbatim>\<open>runTests\<close>: the state of its promise when all events have been handled.\<close>

definition runTests :: "spawner \<Rightarrow> string \<Rightarrow> string \<Rightarrow> TestResult option" where
  "runTests spawn testFilePath projectRoot =
     tryNextCommand spawn (testCommands testFilePath) projectRoot 0 False None"

text \<open>
  Three environments: one in which no command can be started; one in which \<^verbatim>\<open>npx\<close>
  cannot be started while \<^verbatim>\<open>npm test\<close> runs and passes; and one in which \<^verbatim>\<open>npx\<close> ends
  with a shell's complaint about \<^verbatim>\<open>jest\<close> while \<^verbatim>\<open>npm test\<close> runs and passes.
\<close>

definition noCommandStarts :: spawner where
  "noCommandStarts command args cwd = FailedToStart"

definition npxMissing :: spawner where
  \<open>npxMissing command args cwd =
     (if command = ''npm'' then Closed (Some 0) ''1 passed'' [] else FailedToStart)\<close>

definition jestMissing :: spawner where
  \<open>jestMissing command args cwd =
     (if command = ''npx'' then Closed (Some 127) [] ''sh: 1: jest: command not found''
      else if command = ''npm'' then Closed (Some 0) ''1 passed'' []
      else FailedToStart)\<close>
section \<open>The generate, write, verify and repair loop\<close>

text \<open>
  The loop of \<^verbatim>\<open>generateTests\<close>. Its two collaborators are parameters: \<open>run\<close> gives
  the result of \<^verbatim>\<open>runTests\<close> in a given iteration on the test file just written, and
  \<open>repair\<close> gives the result of \<^verbatim>\<open>fixTestErrors\<close> for a test source and a diagnostic text.
  Writing the test file and running the tests are recorded, in order, in \<open>trace\<close>.
\<close>

datatype IOEvent = WriteFile string | RunTests nat

record LoopState =
  iteration :: nat
  testCode :: string
  allTestsPassed :: bool
  finalResult :: string
  trace :: "IOEvent list"

definition maxIterations :: nat where
  "maxIterations = 5"

text \<open>Decimal digits of a number, as a template literal prints it.\<close>

definition digitChar :: "nat \<Rightarrow> char" where
  "digitChar d = ''0123456789'' ! d"

function showNat :: "nat \<Rightarrow> string" where
  "showNat n = (if n < 10 then [digitChar n] else showNat (n div 10) @ [digitChar (n mod 10)])"
  by pat_completeness auto
termination
  by (relation "measure id") auto

declare showNat.simps [simp del]

text \<open>
  The three result texts. Characters outside ASCII are written as their UTF-8 bytes: the
  check mark, and the warning sign with its variation selector.
\<close>

definition passedText :: "nat \<Rightarrow> string \<Rightarrow> string" where
  \<open>passedText i code =
     [CHR 0xE2, CHR 0x9C, CHR 0x85] @ '' All tests passed on iteration '' @ showNat i
     @ ''!\<newline>\<newline>'' @ code\<close>

definition warningSign :: string where
  "warningSign = [CHR 0xE2, CHR 0x9A, CHR 0xA0, CHR 0xEF, CHR 0xB8, CHR 0x8F]"

definition stalledText :: "nat \<Rightarrow> string \<Rightarrow> string \<Rightarrow> string" where
  \<open>stalledText i errs code =
     warningSign @ '' Could not automatically fix test errors after '' @ showNat i
     @ '' iterations.\<newline>\<newline>Last errors:\<newline>'' @ errs @ ''\<newline>\<newline>'' @ code\<close>

definition exhaustedText :: "string \<Rightarrow> string" where
  \<open>exhaustedText code =
     warningSign @ '' Maximum iterations ('' @ showNat maxIterations
     @ '') reached. Some tests may still have issues.\<newline>\<newline>'' @ code\<close>

text \<open>How the \<^verbatim>\<open>while\<close> statement was left: by its condition, or by \<^verbatim>\<open>break\<close>.\<close>

datatype LoopExit = ConditionFalse | Break

function whileLoop ::
  "(nat \<Rightarrow> string \<Rightarrow> TestResult) \<Rightarrow> (string \<Rightarrow> string \<Rightarrow> string) \<Rightarrow> LoopState
     \<Rightarrow> LoopExit \<times> LoopState" where
  "whileLoop run repair st =
     (if \<not> allTestsPassed st \<and> iteration st \<le> maxIterations then
        (let st1 = st\<lparr> trace := trace st @ [WriteFile (testCode st)] \<rparr>;
             testResult = run (iteration st) (testCode st);
             st2 = st1\<lparr> trace := trace st1 @ [RunTests (iteration st)] \<rparr>
         in if success testResult
            then whileLoop run repair
                   (st2\<lparr> allTestsPassed := True,
                         finalResult := passedText (iteration st) (testCode st) \<rparr>)
            else (let fixedCode = repair (testCode st) (errors testResult)
                  in if fixedCode = testCode st
                     then (Break,
                           st2\<lparr> finalResult :=
                                  stalledText (iteration st) (errors testResult) (testCode st) \<rparr>)
                     else whileLoop run repair
                            (st2\<lparr> testCode := fixedCode, iteration := iteration st + 1 \<rparr>)))
      else (ConditionFalse, st))"
  by pat_completeness auto
termination
  by (relation "measure (\<lambda>(run, repair, st).
        if allTestsPassed st then 0 else Suc (Suc maxIterations - iteration st))")
     auto

declare whileLoop.simps [simp del]

text \<open>
  The loop with what surrounds it: the initial state, the check for the exhausted bound
  after the loop, and the final write.
\<close>

definition initialState :: "string \<Rightarrow> LoopState" where
  "initialState code =
     \<lparr> iteration = 1, testCode = code, allTestsPassed = False, finalResult = [], trace = [] \<rparr>"

definition afterLoop :: "LoopState \<Rightarrow> LoopState" where
  "afterLoop st =
     (let st1 = (if \<not> allTestsPassed st \<and> iteration st > maxIterations
                 then st\<lparr> finalResult := exhaustedText (testCode st) \<rparr> else st)
      in st1\<lparr> trace := trace st1 @ [WriteFile (testCode st1)] \<rparr>)"

definition generateTestsLoop ::
  "(nat \<Rightarrow> string \<Rightarrow> TestResult) \<Rightarrow> (string \<Rightarrow> string \<Rightarrow> string) \<Rightarrow> string
     \<Rightarrow> LoopExit \<times> LoopState" where
  "generateTestsLoop run repair code =
     (case whileLoop run repair (initialState code) of (ex, st) \<Rightarrow> (ex, afterLoop st))"

text \<open>The terminal states of the loop, read off the way it was left.\<close>

datatype Terminal = PASSED | STALLED | EXHAUSTED

definition terminal :: "LoopExit \<times> LoopState \<Rightarrow> Terminal" where
  "terminal r =
     (if allTestsPassed (snd r) then PASSED
      else if fst r = Break then STALLED
      else EXHAUSTED)"

text \<open>The iterations in which the tests ran, and the contents written, in order.\<close>

definition runsOf :: "IOEvent list \<Rightarrow> nat list" where
  "runsOf evs = concat (map (\<lambda>e. case e of RunTests i \<Rightarrow> [i] | WriteFile _ \<Rightarrow> []) evs)"

definition writesOf :: "IOEvent list \<Rightarrow> string list" where
  "writesOf evs = concat (map (\<lambda>e. case e of WriteFile c \<Rightarrow> [c] | RunTests _ \<Rightarrow> []) evs)"

text \<open>
  What one pass through the loop body leaves in the trace, for the sources \<open>cs\<close> verified
  in the iterations from \<open>i\<close> on; and the relation between successive verified sources:
  the verification failed, and the repair gave the next source, different from this one.
\<close>

fun loopEvents :: "nat \<Rightarrow> string list \<Rightarrow> IOEvent list" where
  "loopEvents i [] = []"
| "loopEvents i (c # cs) = WriteFile c # RunTests i # loopEvents (Suc i) cs"

fun repairChain ::
  "(nat \<Rightarrow> string \<Rightarrow> TestResult) \<Rightarrow> (string \<Rightarrow> string \<Rightarrow> string) \<Rightarrow> nat \<Rightarrow> string list \<Rightarrow> bool" where
  "repairChain run repair i [] = True"
| "repairChain run repair i [c] = True"
| "repairChain run repair i (c # c' # cs) =
     (\<not> success (run i c) \<and> c' = repair c (errors (run i c)) \<and> c' \<noteq> c
      \<and> repairChain run repair (Suc i) (c' # cs))"

text \<open>
  The three ways in which the \<^verbatim>\<open>while\<close> statement ends, started in state \<open>st\<close>, for
  the sources \<open>vs\<close> verified since then: the last one passed; the repair of the last one
  changed nothing; or the bound was exceeded by the repair of the last one.
\<close>

definition endsPassed ::
  "(nat \<Rightarrow> string \<Rightarrow> TestResult) \<Rightarrow> LoopState \<Rightarrow> string list \<Rightarrow> LoopExit \<Rightarrow> LoopState \<Rightarrow> bool" where
  "endsPassed run st vs ex st' \<longleftrightarrow>
     allTestsPassed st' \<and> ex = ConditionFalse \<and> Suc (iteration st') = iteration st + length vs
     \<and> iteration st' \<le> maxIterations
     \<and> testCode st' = last vs \<and> success (run (iteration st') (last vs))
     \<and> finalResult st' = passedText (iteration st') (last vs)"

definition endsStalled ::
  "(nat \<Rightarrow> string \<Rightarrow> TestResult) \<Rightarrow> (string \<Rightarrow> string \<Rightarrow> string) \<Rightarrow> LoopState \<Rightarrow> string list
     \<Rightarrow> LoopExit \<Rightarrow> LoopState \<Rightarrow> bool" where
  "endsStalled run repair st vs ex st' \<longleftrightarrow>
     \<not> allTestsPassed st' \<and> ex = Break \<and> Suc (iteration st') = iteration st + length vs
     \<and> iteration st' \<le> maxIterations
     \<and> testCode st' = last vs \<and> \<not> success (run (iteration st') (last vs))
     \<and> repair (last vs) (errors (run (iteration st') (last vs))) = last vs
     \<and> finalResult st'
         = stalledText (iteration st') (errors (run (iteration st') (last vs))) (last vs)"

definition endsExhausted ::
  "(nat \<Rightarrow> string \<Rightarrow> TestResult) \<Rightarrow> (string \<Rightarrow> string \<Rightarrow> string) \<Rightarrow> LoopState \<Rightarrow> string list
     \<Rightarrow> LoopExit \<Rightarrow> LoopState \<Rightarrow> bool" where
  "endsExhausted run repair st vs ex st' \<longleftrightarrow>
     \<not> allTestsPassed st' \<and> ex = ConditionFalse \<and> iteration st' = Suc maxIterations
     \<and> iteration st + length vs = Suc maxIterations
     \<and> \<not> success (run maxIterations (last vs))
     \<and> testCode st' = repair (last vs) (errors (run maxIterations (last vs)))
     \<and> testCode st' \<noteq> last vs
     \<and> finalResult st' = finalResult st"

text \<open>
  A verifier that fails every time with the same diagnostic, and a repair that changes the
  source every time.
\<close>

definition alwaysFails :: "nat \<Rightarrow> string \<Rightarrow> TestResult" where
  "alwaysFails i code = \<lparr> success = False, errors = ''E'', outputText = ''E'' \<rparr>"

definition appendMark :: "string \<Rightarrow> string \<Rightarrow> string" where
  "appendMark code errs = code @ ''x''"

section \<open>Regular expressions\<close>

text \<open>
  The repairer works with JavaScript regular expressions. The patterns of the source use
  literal characters, the dot, character classes, \<^verbatim>\<open>\s\<close>, greedy \<^verbatim>\<open>*\<close>, \<^verbatim>\<open>+\<close> and
  \<^verbatim>\<open>?\<close>, capturing groups (none of them under a quantifier) and, in one pattern built
  at run time, the end of input. The matcher is the backtracking one of the language:
  \<open>matchesOf r s caps\<close> lists every way to match \<open>r\<close> at the front of \<open>s\<close>, the preferred
  way first, each with the rest of the input and the captures. A greedy quantifier prefers
  one more iteration, and an iteration that consumes nothing is not taken.
\<close>

datatype Regex =
  Chr char
| AnyChar
| OneOf "char list"
| NoneOf "char list"
| Class "char \<Rightarrow> bool"
| Seq Regex Regex
| Star Regex
| Opt Regex
| Group nat Regex
| EndOfInput
| Empty

type_synonym captures = "string option list"

definition isLineTerminator :: "char \<Rightarrow> bool" where
  "isLineTerminator c = (c = CHR 0x0A \<or> c = CHR 0x0D)"

function matchesOf :: "Regex \<Rightarrow> string \<Rightarrow> captures \<Rightarrow> (string \<times> captures) list" where
  "matchesOf (Chr a) s caps =
     (case s of [] \<Rightarrow> [] | x # xs \<Rightarrow> if x = a then [(xs, caps)] else [])"
| "matchesOf AnyChar s caps =
     (case s of [] \<Rightarrow> [] | x # xs \<Rightarrow> if isLineTerminator x then [] else [(xs, caps)])"
| "matchesOf (OneOf cs) s caps =
     (case s of [] \<Rightarrow> [] | x # xs \<Rightarrow> if x \<in> set cs then [(xs, caps)] else [])"
| "matchesOf (NoneOf cs) s caps =
     (case s of [] \<Rightarrow> [] | x # xs \<Rightarrow> if x \<in> set cs then [] else [(xs, caps)])"
| "matchesOf (Class P) s caps =
     (case s of [] \<Rightarrow> [] | x # xs \<Rightarrow> if P x then [(xs, caps)] else [])"
| "matchesOf (Seq r1 r2) s caps =
     concat (map (\<lambda>m. matchesOf r2 (fst m) (snd m)) (matchesOf r1 s caps))"
| "matchesOf (Star r) s caps =
     concat (map (\<lambda>m. if length (fst m) < length s then matchesOf (Star r) (fst m) (snd m) else [])
               (matchesOf r s caps))
     @ [(s, caps)]"
| "matchesOf (Opt r) s caps = matchesOf r s caps @ [(s, caps)]"
| "matchesOf (Group i r) s caps =
     map (\<lambda>m. (fst m, (snd m)[i := Some (take (length s - length (fst m)) s)]))
       (matchesOf r s caps)"
| "matchesOf EndOfInput s caps = (if s = [] then [(s, caps)] else [])"
| "matchesOf Empty s caps = [(s, caps)]"
  by pat_completeness auto
termination
  by (relation "measures [\<lambda>(r, s, caps). size r, \<lambda>(r, s, caps). length s]") auto

text \<open>\<^verbatim>\<open>r+\<close>, and a literal text as a pattern.\<close>

definition Plus :: "Regex \<Rightarrow> Regex" where
  "Plus r = Seq r (Star r)"

fun lit :: "string \<Rightarrow> Regex" where
  "lit [] = Empty"
| "lit (c # cs) = Seq (Chr c) (lit cs)"

text \<open>A sequence of patterns.\<close>

fun seqs :: "Regex list \<Rightarrow> Regex" where
  "seqs [] = Empty"
| "seqs [r] = r"
| "seqs (r # rs) = Seq r (seqs rs)"

text \<open>
  The first match of a pattern with \<open>n\<close> groups in a text, searched from left to right:
  the text before it, the matched text, the captures and the text after it. The search
  goes through the suffixes of the whole text.
\<close>

record Match =
  before :: string
  matched :: string
  groups :: captures
  after :: string

fun firstMatchFrom :: "Regex \<Rightarrow> nat \<Rightarrow> string \<Rightarrow> string \<Rightarrow> Match option" where
  "firstMatchFrom r n whole [] =
     (case matchesOf r [] (replicate n None) of
        [] \<Rightarrow> None
      | m # ms \<Rightarrow> Some \<lparr> before = whole, matched = [], groups = snd m, after = [] \<rparr>)"
| "firstMatchFrom r n whole (x # xs) =
     (case matchesOf r (x # xs) (replicate n None) of
        [] \<Rightarrow> firstMatchFrom r n whole xs
      | m # ms \<Rightarrow>
          Some \<lparr> before = take (length whole - length (x # xs)) whole,
                 matched = take (length (x # xs) - length (fst m)) (x # xs),
                 groups = snd m, after = fst m \<rparr>)"

text \<open>\<^verbatim>\<open>text.match(r)\<close> for a pattern without the flag \<^verbatim>\<open>g\<close>.\<close>

definition firstMatch :: "Regex \<Rightarrow> nat \<Rightarrow> string \<Rightarrow> Match option" where
  "firstMatch r n s = firstMatchFrom r n s s"

text \<open>The text of group \<open>i\<close> (counted from 1) of a match; a group that took no part is empty.\<close>

definition groupText :: "Match \<Rightarrow> nat \<Rightarrow> string" where
  "groupText m i =
     (if 1 \<le> i \<and> i \<le> length (groups m)
      then (case groups m ! (i - 1) of Some t \<Rightarrow> t | None \<Rightarrow> [])
      else [])"

text \<open>
  All matches of a pattern with the flag \<^verbatim>\<open>g\<close>, from left to right without overlap. The
  scan goes through the text character by character; \<open>skip\<close> counts the characters that
  still belong to the last match. After an empty match the search goes on one character
  further.
\<close>

fun allMatchesFrom :: "Regex \<Rightarrow> nat \<Rightarrow> string \<Rightarrow> string \<Rightarrow> nat \<Rightarrow> Match list" where
  "allMatchesFrom r n whole [] skip =
     (if skip = 0
      then (case matchesOf r [] (replicate n None) of
              [] \<Rightarrow> []
            | m # ms \<Rightarrow> [\<lparr> before = whole, matched = [], groups = snd m, after = [] \<rparr>])
      else [])"
| "allMatchesFrom r n whole (x # xs) (Suc k) = allMatchesFrom r n whole xs k"
| "allMatchesFrom r n whole (x # xs) 0 =
     (case matchesOf r (x # xs) (replicate n None) of
        [] \<Rightarrow> allMatchesFrom r n whole xs 0
      | m # ms \<Rightarrow>
          \<lparr> before = take (length whole - length (x # xs)) whole,
            matched = take (length (x # xs) - length (fst m)) (x # xs),
            groups = snd m, after = fst m \<rparr>
          # allMatchesFrom r n whole xs (length (x # xs) - length (fst m) - 1))"

definition allMatches :: "Regex \<Rightarrow> nat \<Rightarrow> string \<Rightarrow> Match list" where
  "allMatches r n s = allMatchesFrom r n s s 0"

text \<open>
  The replacement text for a match (\<^verbatim>\<open>GetSubstitution\<close>): \<^verbatim>\<open>$$\<close> is a dollar sign,
  \<^verbatim>\<open>$&\<close> the matched text, \<^verbatim>\<open>$`\<close> the text before and \<^verbatim>\<open>$'\<close> the text after the match,
  \<^verbatim>\<open>$n\<close> and \<^verbatim>\<open>$nn\<close> the text of a group when the pattern has that group; every other
  character stands for itself.
\<close>

definition digitValue :: "char \<Rightarrow> nat option" where
  "digitValue c = map_of (zip ''0123456789'' [0 ..< 10]) c"

fun substitute :: "Match \<Rightarrow> string \<Rightarrow> string" where
  "substitute m [] = []"
| "substitute m [c] = [c]"
| "substitute m (c # d # t) =
     (if c \<noteq> CHR ''$'' then c # substitute m (d # t)
      else if d = CHR ''$'' then CHR ''$'' # substitute m t
      else if d = CHR ''&'' then matched m @ substitute m t
      else if d = CHR 0x60 then before m @ substitute m t
      else if d = CHR 0x27 then after m @ substitute m t
      else (case digitValue d of
              None \<Rightarrow> c # substitute m (d # t)
            | Some d1 \<Rightarrow>
                (case t of
                   [] \<Rightarrow> (if 1 \<le> d1 \<and> d1 \<le> length (groups m) then groupText m d1
                          else [c, d])
                 | e # u \<Rightarrow>
                     (case digitValue e of
                        None \<Rightarrow> (if 1 \<le> d1 \<and> d1 \<le> length (groups m)
                                 then groupText m d1 @ substitute m t
                                 else c # d # substitute m t)
                      | Some d2 \<Rightarrow>
                          (if 10 * d1 + d2 \<le> length (groups m)
                           then (if 1 \<le> 10 * d1 + d2
                                 then groupText m (10 * d1 + d2) @ substitute m u
                                 else c # d # e # substitute m u)
                           else if 1 \<le> d1 \<and> d1 \<le> length (groups m)
                           then groupText m d1 @ substitute m t
                           else c # d # substitute m t)))))"

text \<open>\<^verbatim>\<open>text.replace(r, replacement)\<close> for a pattern without the flag \<^verbatim>\<open>g\<close>.\<close>

definition replaceFirst :: "Regex \<Rightarrow> nat \<Rightarrow> string \<Rightarrow> string \<Rightarrow> string" where
  "replaceFirst r n replacement s =
     (case firstMatch r n s of
        None \<Rightarrow> s
      | Some m \<Rightarrow> before m @ substitute m replacement @ after m)"

text \<open>
  \<^verbatim>\<open>text.replace(r, replacement)\<close> for a pattern with the flag \<^verbatim>\<open>g\<close>: the text between
  the matches stays, every match gives way to its replacement.
\<close>

fun rebuild :: "string \<Rightarrow> nat \<Rightarrow> string \<Rightarrow> Match list \<Rightarrow> string" where
  "rebuild replacement pos s [] = drop pos s"
| "rebuild replacement pos s (m # ms) =
     take (length (before m) - pos) (drop pos s) @ substitute m replacement
     @ rebuild replacement (length (before m) + length (matched m)) s ms"

definition replaceAll :: "Regex \<Rightarrow> nat \<Rightarrow> string \<Rightarrow> string \<Rightarrow> string" where
  "replaceAll r n replacement s = rebuild replacement 0 s (allMatches r n s)"

text \<open>
  \<^verbatim>\<open>text.replace(pattern, replacement)\<close> for a pattern that is a string: the first
  occurrence of the pattern; the empty pattern occurs at the very front.
\<close>

fun findString :: "string \<Rightarrow> string \<Rightarrow> string \<Rightarrow> Match option" where
  "findString pat whole [] =
     (if pat = [] then Some \<lparr> before = whole, matched = [], groups = [], after = [] \<rparr>
      else None)"
| "findString pat whole (x # xs) =
     (if startsWith (x # xs) pat
      then Some \<lparr> before = take (length whole - length (x # xs)) whole, matched = pat,
                  groups = [], after = drop (length pat) (x # xs) \<rparr>
      else findString pat whole xs)"

definition replaceString :: "string \<Rightarrow> string \<Rightarrow> string \<Rightarrow> string" where
  "replaceString pat replacement s =
     (case findString pat s s of
        None \<Rightarrow> s
      | Some m \<Rightarrow> before m @ substitute m replacement @ after m)"

section \<open>The repairer\<close>

text \<open>
  \<^verbatim>\<open>fixTestErrors\<close> applies its rules in the order of the source, each behind its test on
  the diagnostic text. The patterns are written out below, each with the number of its
  groups. Quote characters are written by their codes: \<open>0x22\<close> the double, \<open>0x27\<close> the
  single quote.
\<close>

definition dq :: char where
  "dq = CHR 0x22"

definition sq :: char where
  "sq = CHR 0x27"

text \<open>\<^verbatim>\<open>getDefaultPropValue(propName)\<close> of the server, by prop name alone.\<close>

definition defaultValueByName :: "string \<Rightarrow> string" where
  \<open>defaultValueByName propName =
     (if propName \<in> set [''onClick'', ''onSubmit'', ''onChange''] then ''{() => {}}''
      else if propName = ''children'' then ''{"Test Content"}''
      else if propName \<in> set [''label'', ''title'', ''text''] then ''"Test '' @ propName @ ''"''
      else if propName \<in> set [''disabled'', ''loading'', ''visible''] then []
      else if startsWith propName ''on'' then ''{() => {}}''
      else ''"test-'' @ propName @ ''"'')\<close>

subsection \<open>Malformed quoted attribute values\<close>

text \<open>\<^verbatim>\<open>/="'([^']+)'"/g\<close>, replaced by \<^verbatim>\<open>="$1"\<close>\<close>

definition rxQuotedValue :: Regex where
  "rxQuotedValue =
     seqs [Chr CHR ''='', Chr dq, Chr sq, Group 0 (Plus (NoneOf [sq])), Chr sq, Chr dq]"

definition fixQuotedValues :: "string \<Rightarrow> string" where
  \<open>fixQuotedValues code = replaceAll rxQuotedValue 1 ''="$1"'' code\<close>

subsection \<open>Malformed closure attributes\<close>

text \<open>
  \<^verbatim>\<open>/onClick={() => {}}/g\<close>, \<^verbatim>\<open>/onClick={, () => {}}/g\<close> and \<^verbatim>\<open>/onClick={() => ,}/g\<close>:
  a brace that opens no quantifier stands for itself, and the parentheses are a group
  around the empty pattern. So the three patterns match the texts
  \<^verbatim>\<open>onClick={ => {}}\<close>, \<^verbatim>\<open>onClick={,  => {}}\<close> and \<^verbatim>\<open>onClick={ => ,}\<close>.
\<close>

definition rxClosure1 :: Regex where
  \<open>rxClosure1 = seqs [lit ''onClick={'', Group 0 Empty, lit '' => {}}'']\<close>

definition rxClosure2 :: Regex where
  \<open>rxClosure2 = seqs [lit ''onClick={, '', Group 0 Empty, lit '' => {}}'']\<close>

definition rxClosure3 :: Regex where
  \<open>rxClosure3 = seqs [lit ''onClick={'', Group 0 Empty, lit '' => ,}'']\<close>

definition fixClosures :: "string \<Rightarrow> string" where
  \<open>fixClosures code =
     replaceAll rxClosure3 1 ''onClick={() => {}}''
       (replaceAll rxClosure2 1 ''onClick={() => {}}''
          (replaceAll rxClosure1 1 ''onClick={() => {}}'' code))\<close>

subsection \<open>Unresolved relative imports\<close>

text \<open>
  \<^verbatim>\<open>/Cannot find module.*['"]([^'"]+)['"]/g\<close> on the diagnostic text, then
  \<^verbatim>\<open>/['"]([^'"]+)['"]/\<close> on each match; for a module name that starts with a dot the
  first match of \<^verbatim>\<open>/import.*from ["']([^"']+)["']/\<close> in the test source is replaced.
\<close>

definition rxQuotedName :: Regex where
  "rxQuotedName = seqs [OneOf [sq, dq], Group 0 (Plus (NoneOf [sq, dq])), OneOf [sq, dq]]"

definition rxCannotFindModule :: Regex where
  \<open>rxCannotFindModule = seqs [lit ''Cannot find module'', Star AnyChar, rxQuotedName]\<close>

definition rxImportFrom :: Regex where
  \<open>rxImportFrom =
     seqs [lit ''import'', Star AnyChar, lit ''from '', OneOf [dq, sq],
           Group 0 (Plus (NoneOf [dq, sq])), OneOf [dq, sq]]\<close>

definition fixImportFor :: "string \<Rightarrow> string \<Rightarrow> Match \<Rightarrow> string \<Rightarrow> string" where
  \<open>fixImportFor cn path found code =
     (case firstMatch rxQuotedName 1 (matched found) of
        None \<Rightarrow> code
      | Some moduleNameMatch \<Rightarrow>
          (if startsWith (groupText moduleNameMatch 1) ''.''
           then replaceFirst rxImportFrom 1
                  (''import { '' @ cn @ '' } from "'' @ getImportPath path @ ''"'') code
           else code))\<close>

definition fixImports :: "string \<Rightarrow> string \<Rightarrow> string \<Rightarrow> string \<Rightarrow> string" where
  "fixImports errs cn path code =
     fold (fixImportFor cn path) (allMatches rxCannotFindModule 1 errs) code"

subsection \<open>Named imports that were not found\<close>

text \<open>
  \<^verbatim>\<open>/export '([^']+)' \(imported as '([^']+)'\) was not found/g\<close> on the diagnostic text.
  The second group becomes part of a pattern built at run time,
  \<^verbatim>\<open>import\s*{[^}]*NAME[^}]*}\s*from\<close>. For a name of letters, digits, underscores and
  dollar signs this pattern is modelled: every character stands for itself, but the dollar
  sign, which stands for the end of input. For another name the pattern is not modelled,
  and the repairer's result is \<open>None\<close>.
\<close>

definition rxExportNotFound :: Regex where
  \<open>rxExportNotFound =
     seqs [lit ''export '', Chr sq, Group 0 (Plus (NoneOf [sq])), Chr sq, lit '' (imported as '',
           Chr sq, Group 1 (Plus (NoneOf [sq])), Chr sq, lit '') was not found'']\<close>

definition isDigit :: "char \<Rightarrow> bool" where
  "isDigit c = (c \<in> set ''0123456789'')"

definition isNameChar :: "char \<Rightarrow> bool" where
  "isNameChar c = (isUpper c \<or> isLower c \<or> isDigit c \<or> c = CHR ''_'' \<or> c = CHR ''$'')"

definition namePattern :: "string \<Rightarrow> Regex" where
  "namePattern nm = seqs (map (\<lambda>c. if c = CHR ''$'' then EndOfInput else Chr c) nm)"

definition rxNamedImport :: "string \<Rightarrow> Regex" where
  \<open>rxNamedImport nm =
     seqs [lit ''import'', Star (Class isWhiteSpace), Chr CHR ''{'', Star (NoneOf ''}''),
           namePattern nm, Star (NoneOf ''}''), Chr CHR ''}'', Star (Class isWhiteSpace),
           lit ''from'']\<close>

definition fixNamedImportFor :: "Match \<Rightarrow> string option \<Rightarrow> string option" where
  \<open>fixNamedImportFor found code =
     (case code of
        None \<Rightarrow> None
      | Some c \<Rightarrow>
          (case firstMatch rxExportNotFound 2 (matched found) of
             None \<Rightarrow> Some c
           | Some parts \<Rightarrow>
               (let importName = groupText parts 2 in
                if list_all isNameChar importName
                then Some (replaceAll (rxNamedImport importName) 0
                             (''import '' @ importName @ '' from'') c)
                else None)))\<close>

definition fixNamedImports :: "string \<Rightarrow> string \<Rightarrow> string option" where
  "fixNamedImports errs code =
     fold fixNamedImportFor (allMatches rxExportNotFound 2 errs) (Some code)"

subsection \<open>Role queries that found no element\<close>

text \<open>
  \<^verbatim>\<open>/Unable to find an element with the role "([^"]+)"/g\<close> on the diagnostic text, then
  \<^verbatim>\<open>/"([^"]+)"/\<close> on each match; every occurrence of the role query in the test source
  (the pattern is the escaped text of the query) is replaced by the fixed query.
\<close>

definition rxDoubleQuoted :: Regex where
  "rxDoubleQuoted = seqs [Chr dq, Group 0 (Plus (NoneOf [dq])), Chr dq]"

definition rxRoleNotFound :: Regex where
  \<open>rxRoleNotFound = seqs [lit ''Unable to find an element with the role '', rxDoubleQuoted]\<close>

definition fixRoleFor :: "Match \<Rightarrow> string \<Rightarrow> string" where
  \<open>fixRoleFor found code =
     (case firstMatch rxDoubleQuoted 1 (matched found) of
        None \<Rightarrow> code
      | Some roleMatch \<Rightarrow>
          replaceAll (lit (''screen.getByRole("'' @ groupText roleMatch 1 @ ''")'')) 0
            ''screen.getByTestId("button")'' code)\<close>

definition fixRoles :: "string \<Rightarrow> string \<Rightarrow> string" where
  "fixRoles errs code = fold fixRoleFor (allMatches rxRoleNotFound 1 errs) code"

subsection \<open>Missing required props\<close>

text \<open>
  \<^verbatim>\<open>/Property '([^']+)' is missing in type/g\<close> on the diagnostic text. For each prop the
  test source is searched with \<^verbatim>\<open>/render\(<[^>]+\s+([^>]*)\s*\/?>/\<close> and, if that fails,
  with \<^verbatim>\<open>/render\(<[^>]+\s+([^>]*)\s*>[^<]*<\/[^>]+>/\<close>. When the text of the group does not
  hold the prop name, the first occurrence of that text in the test source is replaced by
  the text with the prop behind it.
\<close>

definition rxMissingProp :: Regex where
  \<open>rxMissingProp =
     seqs [lit ''Property '', Chr sq, Group 0 (Plus (NoneOf [sq])), Chr sq,
           lit '' is missing in type'']\<close>

definition rxRenderSelfClosing :: Regex where
  \<open>rxRenderSelfClosing =
     seqs [lit ''render(<'', Plus (NoneOf ''>''), Plus (Class isWhiteSpace),
           Group 0 (Star (NoneOf ''>'')), Star (Class isWhiteSpace), Opt (Chr CHR ''/''),
           Chr CHR ''>'']\<close>

definition rxRenderWithChildren :: Regex where
  \<open>rxRenderWithChildren =
     seqs [lit ''render(<'', Plus (NoneOf ''>''), Plus (Class isWhiteSpace),
           Group 0 (Star (NoneOf ''>'')), Star (Class isWhiteSpace), Chr CHR ''>'',
           Star (NoneOf ''<''), lit ''</'', Plus (NoneOf ''>''), Chr CHR ''>'']\<close>

definition findRenderProps :: "string \<Rightarrow> Match option" where
  "findRenderProps code =
     (case firstMatch rxRenderSelfClosing 1 code of
        Some m \<Rightarrow> Some m
      | None \<Rightarrow> firstMatch rxRenderWithChildren 1 code)"

definition fixMissingPropFor :: "Match \<Rightarrow> string \<Rightarrow> string" where
  \<open>fixMissingPropFor found code =
     (case firstMatch rxMissingProp 1 (matched found) of
        None \<Rightarrow> code
      | Some propMatch \<Rightarrow>
          (let propName = groupText propMatch 1 in
           case findRenderProps code of
             None \<Rightarrow> code
           | Some propsMatch \<Rightarrow>
               (let existingProps = groupText propsMatch 1 in
                if str_includes existingProps propName then code
                else
                  (let defaultValue = defaultValueByName propName;
                       newProps = (if existingProps \<noteq> []
                                   then existingProps @ '' '' @ propName @ ''='' @ defaultValue
                                   else propName @ ''='' @ defaultValue)
                   in replaceString existingProps newProps code))))\<close>

definition fixMissingProps :: "string \<Rightarrow> string \<Rightarrow> string" where
  "fixMissingProps errs code = fold fixMissingPropFor (allMatches rxMissingProp 1 errs) code"

subsection \<open>Class assertions\<close>

definition rxSizeClass :: Regex where
  \<open>rxSizeClass =
     seqs [lit ''expect(element).toHaveClass("size--'', Group 0 (Plus (NoneOf [dq])),
           lit ''");'']\<close>

definition rxVariantClass :: Regex where
  \<open>rxVariantClass =
     seqs [lit ''expect(element).toHaveClass("variant--'', Group 0 (Plus (NoneOf [dq])),
           lit ''");'']\<close>

definition fixClassAssertions :: "string \<Rightarrow> string" where
  \<open>fixClassAssertions code =
     replaceAll rxVariantClass 1 ''expect(element).toHaveClass("btn--$1");''
       (replaceAll rxSizeClass 1 ''expect(element).toHaveClass("btn--$1");''
          (replaceAll (lit ''expect(element).toHaveClass("loading");'') 0
             ''expect(element).toHaveAttribute("aria-disabled", "true");''
             (replaceAll (lit ''expect(element).toHaveClass("disabled");'') 0
                ''expect(element).toBeDisabled();'' code)))\<close>

subsection \<open>Text, status and image queries\<close>

text \<open>\<^verbatim>\<open>/screen\.getByText\(test([A-Z][a-z]+)\)/g\<close>\<close>

definition rxGetByText :: Regex where
  \<open>rxGetByText =
     seqs [lit ''screen.getByText(test'', Group 0 (Seq (Class isUpper) (Plus (Class isLower))),
           Chr CHR '')'']\<close>

definition fixTextQueries :: "string \<Rightarrow> string" where
  \<open>fixTextQueries code =
     replaceAll rxGetByText 1 ''screen.getByTestId("$1".toLowerCase())'' code\<close>

definition fixStatusQueries :: "string \<Rightarrow> string" where
  \<open>fixStatusQueries code =
     replaceAll (lit ''screen.getByRole("status", { hidden: true })'') 0
       ''screen.getByTestId("loading-spinner")'' code\<close>

definition fixImageQueries :: "string \<Rightarrow> string" where
  \<open>fixImageQueries code =
     replaceAll (lit ''screen.getByRole("img", { hidden: true }) || screen.getByTestId("icon")'') 0
       ''screen.getByTestId("icon")'' code\<close>

subsection \<open>The rule table\<close>

text \<open>A rule behind its test on the diagnostic text.\<close>

definition whenever :: "bool \<Rightarrow> (string \<Rightarrow> string) \<Rightarrow> string \<Rightarrow> string" where
  "whenever signal rule code = (if signal then rule code else code)"

definition fixTestErrors :: "string \<Rightarrow> string \<Rightarrow> ComponentAnalysis \<Rightarrow> string \<Rightarrow> string option" where
  \<open>fixTestErrors code errs analysis path =
     (if str_includes errs ''Unknown option "moduleNameMapping"''
         \<or> str_includes errs ''jest-environment-jsdom cannot be found''
      then Some code
      else if str_includes errs ''--jsx'' \<and> str_includes errs ''is not set''
      then Some code
      else
        (let c1 = whenever (str_includes errs ''is not assignable to type''
                            \<and> str_includes errs ''Did you mean'') fixQuotedValues code;
             c2 = whenever (str_includes errs ''Identifier expected''
                            \<and> str_includes errs ''onClick={() => {}}'') fixClosures c1;
             c3 = whenever (str_includes errs ''Cannot find module'')
                    (fixImports errs (componentName analysis) path) c2;
             c4 = (if str_includes errs ''was not found'' then fixNamedImports errs c3
                   else Some c3)
         in case c4 of
              None \<Rightarrow> None
            | Some c4 \<Rightarrow>
                (let c5 = whenever (str_includes errs ''Unable to find an element with the role'')
                            (fixRoles errs) c4;
                     c6 = whenever (str_includes errs ''Property''
                                    \<and> str_includes errs ''is missing in type'')
                            (fixMissingProps errs) c5;
                     c7 = whenever (str_includes errs ''toHaveClass''
                                    \<and> str_includes errs ''Expected'') fixClassAssertions c6;
                     c8 = whenever (str_includes errs ''Unable to find an element with the text'')
                            fixTextQueries c7;
                     c9 = whenever (str_includes errs
                                      ''Unable to find an element with the role "status"'')
                            fixStatusQueries c8;
                     c10 = whenever (str_includes errs
                                       ''Unable to find an element with the role "img"'')
                             fixImageQueries c9
                 in Some c10)))\<close>

subsection \<open>A repair that is applied again and again\<close>

text \<open>
  A component \<^verbatim>\<open>B\<close> for which the analyzer found no props, in \<^verbatim>\<open>src/B.tsx\<close>; the
  diagnostic of the type checker for a required prop \<^verbatim>\<open>label\<close> that the test does not
  pass; and the generated test source with the prop inserted \<open>k\<close> times behind the first
  slash of the file, which is in the import of the testing library.
\<close>

definition bareModel :: ComponentAnalysis where
  \<open>bareModel = mkModel ''B'' []\<close>

definition missingLabel :: string where
  \<open>missingLabel = ''Property '' @ [sq] @ ''label'' @ [sq] @ '' is missing in type''\<close>

definition brokenImport :: "nat \<Rightarrow> string" where
  \<open>brokenImport k =
     ''import React from "react";\<newline>import { render, screen, fireEvent } from "@testing-library/''
     @ concat (replicate k '' label="Test label"'')
     @ ''react";\<newline>import "@testing-library/jest-dom";\<newline>import { B } from "../B";\<newline>\<newline>/**\<newline> * Test suite for the B component.\<newline> */\<newline>describe("B Component", () => {\<newline>    it("should render B component", () => {\<newline>        render(<B  />);\<newline>        \<newline>        expect(screen.getByRole("button")).toBeInTheDocument();\<newline>    });\<newline>\<newline>    it("should be accessible via keyboard", () => {\<newline>        const requiredProps = {};\<newline>        \<newline>        render(<B {...requiredProps} />);\<newline>        \<newline>        const element = screen.getByRole("button");\<newline>        expect(element).not.toHaveAttribute("tabIndex", "-1");\<newline>    });\<newline>});\<newline>''\<close>

section \<open>Properties of the string operations\<close>

lemma startsWith_append: "startsWith (t @ b) t"
  by (simp add: startsWith_def)

lemma startsWith_iff: "startsWith s t \<longleftrightarrow> (\<exists>b. s = t @ b)"
proof
  assume "startsWith s t"
  then have "s = t @ drop (length t) s"
    unfolding startsWith_def by (metis append_take_drop_id)
  then show "\<exists>b. s = t @ b" ..
next
  assume "\<exists>b. s = t @ b"
  then show "startsWith s t" by (auto simp: startsWith_def)
qed

lemma str_includes_iff: "str_includes s t \<longleftrightarrow> (\<exists>a b. s = a @ t @ b)"
proof (induction s)
  case Nil
  then show ?case by auto
next
  case (Cons c cs)
  show ?case
  proof
    assume "str_includes (c # cs) t"
    then consider "startsWith (c # cs) t" | "str_includes cs t" by auto
    then show "\<exists>a b. c # cs = a @ t @ b"
    proof cases
      case 1
      then obtain b where "c # cs = t @ b" by (auto simp: startsWith_iff)
      then have "c # cs = [] @ t @ b" by simp
      then show ?thesis by blast
    next
      case 2
      then obtain a b where "cs = a @ t @ b" using Cons.IH by blast
      then have "c # cs = (c # a) @ t @ b" by simp
      then show ?thesis by blast
    qed
  next
    assume "\<exists>a b. c # cs = a @ t @ b"
    then obtain a b where ab: "c # cs = a @ t @ b" by blast
    show "str_includes (c # cs) t"
    proof (cases a)
      case Nil
      with ab have "startsWith (c # cs) t" by (auto simp: startsWith_iff)
      then show ?thesis by simp
    next
      case (Cons x a')
      with ab have "cs = a' @ t @ b" by simp
      then have "str_includes cs t" using Cons.IH by blast
      then show ?thesis by simp
    qed
  qed
qed

lemma str_includes_self: "str_includes s s"
  using str_includes_iff[of s s] by (metis append_Nil append_Nil2)

lemma str_includes_mid: "str_includes (a @ t @ b) t"
  by (auto simp: str_includes_iff)

lemma str_includes_trans: "str_includes s t \<Longrightarrow> str_includes t u \<Longrightarrow> str_includes s u"
  unfolding str_includes_iff
  by (metis append.assoc)

lemma str_includes_appendL: "str_includes s t \<Longrightarrow> str_includes (a @ s) t"
  unfolding str_includes_iff by (metis append.assoc)

lemma str_includes_appendR: "str_includes s t \<Longrightarrow> str_includes (s @ b) t"
  unfolding str_includes_iff by (metis append.assoc)

lemma str_includes_join: "x \<in> set xs \<Longrightarrow> str_includes (str_join sep xs) x"
proof (induction sep xs rule: str_join.induct)
  case (1 sep)
  then show ?case by simp
next
  case (2 sep y)
  then show ?case by (simp add: str_includes_self)
next
  case (3 sep y z zs)
  show ?case
  proof (cases "x = y")
    case True
    then show ?thesis using str_includes_mid[of "[]" y] by simp
  next
    case False
    with 3 have "str_includes (str_join sep (z # zs)) x" by simp
    then show ?thesis by (simp add: str_includes_appendL)
  qed
qed

lemma generate_includes_case:
  assumes "tc \<in> set (generateTestCases a)"
  shows "str_includes (generate a fp) (tc_code tc)"
proof -
  have "tc_code tc \<in> set (map tc_code (generateTestCases a))"
    using assms by simp
  then have "str_includes (str_join ''\<newline>'' (map tc_code (generateTestCases a))) (tc_code tc)"
    by (rule str_includes_join)
  then show ?thesis
    unfolding generate_def buildTestFile_def Let_def
    by (intro str_includes_appendL str_includes_appendR)
qed



lemma generate_startsWith_imports:
  "startsWith (generate a fp) (generateImports (getImportPath fp) (componentName a))"
  by (simp add: generate_def buildTestFile_def Let_def startsWith_def)

lemmas char_class_defs =
  isUpper_def isLower_def toLowerChar_def toUpperChar_def upperLetters_def lowerLetters_def

section \<open>Properties of the test generator\<close>




text \<open>
  Claim C1. The synthesizer is a function of its arguments alone: it reads no clock, no
  random source and no field of the generator object, and it does not change the model.
  Its result is even determined by the component name, the props and the file path: two
  models that agree on name and props give the same text for the same path, whatever
  their other fields hold. In particular two calls on the same model and path return
  identical text.
\<close>

theorem generate_depends_on_name_and_props:
  assumes "componentName a = componentName b" and "props a = props b"
  shows "generate a path = generate b path"
proof -
  have role: "getExpectedRole a = getExpectedRole b"
    using assms by (simp add: getExpectedRole_def)
  have req: "getRequiredPropsObject a ov = getRequiredPropsObject b ov" for ov
    using assms by (simp add: getRequiredPropsObject_def)
  have hp: "hasProp a k = hasProp b k" for k
    using assms by (simp add: hasProp_def)
  have basic: "createBasicRenderTest a = createBasicRenderTest b"
    using assms role by (simp add: createBasicRenderTest_def)
  have ptests: "createPropTests p a = createPropTests p b" for p
    using assms role req
    by (simp add: createPropTests_def booleanPropTest_def stringPropTest_def unionValueTest_def)
  have ev: "createEventTests p a = createEventTests p b" for p
    using assms role req hp
    by (simp add: createEventTests_def onClickCalledTest_def onClickDisabledTest_def)
  have cond: "createConditionalRenderingTests a = createConditionalRenderingTests b"
    using assms req hp
    by (simp add: createConditionalRenderingTests_def loadingTest_def iconTest_def)
  have acc: "createAccessibilityTests a = createAccessibilityTests b"
    using assms role req hp
    by (simp add: createAccessibilityTests_def keyboardTest_def ariaDisabledTest_def)
  have "generateTestCases a = generateTestCases b"
    using assms basic ptests ev cond acc by (simp add: generateTestCases_def)
  then show ?thesis
    using assms by (simp add: generate_def buildTestFile_def)
qed

text \<open>
  Two models of the README's button that differ in their export list, default-export flag
  and source path.
\<close>

theorem generate_depends_on_name_and_props_witness:
  \<open>scenarioA ''Button''
      \<noteq> (scenarioA ''Button'')\<lparr> exports := [], hasDefaultExport := True,
            filePath := ''src/components/Button.tsx'' \<rparr>
   \<and> generate (scenarioA ''Button'') ''src/components/Button.tsx''
     = generate ((scenarioA ''Button'')\<lparr> exports := [], hasDefaultExport := True,
            filePath := ''src/components/Button.tsx'' \<rparr>) ''src/components/Button.tsx''\<close>
proof -
  let ?b = \<open>(scenarioA ''Button'')\<lparr> exports := [], hasDefaultExport := True,
            filePath := ''src/components/Button.tsx'' \<rparr>\<close>
  have n: \<open>componentName (scenarioA ''Button'') = componentName ?b\<close> by simp
  have p: \<open>props (scenarioA ''Button'') = props ?b\<close> by simp
  have d: \<open>scenarioA ''Button'' \<noteq> ?b\<close>
    by (simp add: scenarioA_def mkModel_def)
  from generate_depends_on_name_and_props [OF n p] d show ?thesis by simp
qed

subsection \<open>The README's button\<close>

lemma scenarioA_cases:
  "generateTestCases (scenarioA n) =
     [createBasicRenderTest (scenarioA n),
      stringPropTest (mkProp ''label'' ''string'' False) (scenarioA n),
      booleanPropTest (mkProp ''disabled'' ''boolean'' True) (scenarioA n),
      onClickCalledTest (scenarioA n),
      onClickDisabledTest (scenarioA n),
      keyboardTest (scenarioA n),
      ariaDisabledTest (scenarioA n)]"
  by (simp add: generateTestCases_def scenarioA_def mkModel_def mkProp_def createPropTests_def
      createEventTests_def isEventProp_def startsWith_def callbackMarker_def hasProp_def
      createConditionalRenderingTests_def createAccessibilityTests_def)

lemma scenarioA_required:
  \<open>getRequiredPropsObject (scenarioA n) [] = ''{ label: "Test Label", onClick: () => {} }''\<close>
  \<open>getRequiredPropsObject (scenarioA n) [(''onClick'', ''handleClick'')]
     = ''{ label: "Test Label", onClick: () => {} }''\<close>
  by (simp_all add: getRequiredPropsObject_def scenarioA_def mkModel_def mkProp_def
      requiredPropEntry_def overrideOr_def objectPrototypeText_def getDefaultPropValue_def
      callbackMarker_def startsWith_def Let_def)

lemma scenarioA_name: "componentName (scenarioA n) = n"
  by (simp add: scenarioA_def mkModel_def)

lemma scenarioA_basic_code:
  \<open>tc_code (createBasicRenderTest (scenarioA n)) = ''\<newline>    it("should render '' @ n @ '' component", () => {\<newline>        render(<'' @ n @ '' label="Test Label" onClick={() => {}} />);\<newline>        \<newline>        expect(screen.getByRole("'' @ getExpectedRole (scenarioA n) @ ''")).toBeInTheDocument();\<newline>    });''\<close>
  by (simp add: createBasicRenderTest_def scenarioA_def mkModel_def mkProp_def
      getDefaultPropValue_def callbackMarker_def startsWith_def Let_def)

lemma scenarioA_disabled_code:
  \<open>tc_code (booleanPropTest (mkProp ''disabled'' ''boolean'' True) (scenarioA n)) = ''\<newline>    it("should handle disabled prop", () => {\<newline>        const requiredProps = { label: "Test Label", onClick: () => {} };\<newline>        \<newline>        render(<'' @ n @ '' {...requiredProps} disabled />);\<newline>        \<newline>        const element = screen.getByRole("'' @ getExpectedRole (scenarioA n) @ ''");\<newline>        expect(element).toHaveClass("disabled");\<newline>    });''\<close>
  by (simp add: booleanPropTest_def scenarioA_required scenarioA_name mkProp_def
      getExpectedClassName_def toLowerCase_def char_class_defs)

lemma scenarioA_onClick_code:
  \<open>tc_code (onClickCalledTest (scenarioA n)) = ''\<newline>    it("should call onClick handler when clicked", () => {\<newline>        const handleClick = jest.fn();\<newline>        const requiredProps = { label: "Test Label", onClick: () => {} };\<newline>        \<newline>        render(<'' @ n @ '' {...requiredProps} onClick={handleClick} />);\<newline>        \<newline>        const element = screen.getByRole("'' @ getExpectedRole (scenarioA n) @ ''");\<newline>        fireEvent.click(element);\<newline>        \<newline>        expect(handleClick).toHaveBeenCalledTimes(1);\<newline>    });''\<close>
  by (simp add: onClickCalledTest_def scenarioA_required scenarioA_name)

lemma scenarioA_onClick_disabled_code:
  \<open>tc_code (onClickDisabledTest (scenarioA n)) = ''\<newline>    it("should not call onClick when disabled", () => {\<newline>        const handleClick = jest.fn();\<newline>        const requiredProps = { label: "Test Label", onClick: () => {} };\<newline>        \<newline>        render(<'' @ n @ '' {...requiredProps} onClick={handleClick} disabled />);\<newline>        \<newline>        const element = screen.getByRole("'' @ getExpectedRole (scenarioA n) @ ''");\<newline>        fireEvent.click(element);\<newline>        \<newline>        expect(handleClick).not.toHaveBeenCalled();\<newline>    });''\<close>
  by (simp add: onClickDisabledTest_def scenarioA_required scenarioA_name)

lemma scenarioA_aria_code:
  \<open>tc_code (ariaDisabledTest (scenarioA n)) = ''\<newline>    it("should have correct aria-disabled when disabled", () => {\<newline>        const requiredProps = { label: "Test Label", onClick: () => {} };\<newline>        \<newline>        render(<'' @ n @ '' {...requiredProps} disabled />);\<newline>        \<newline>        const element = screen.getByRole("'' @ getExpectedRole (scenarioA n) @ ''");\<newline>        expect(element).toBeDisabled();\<newline>    });''\<close>
  by (simp add: ariaDisabledTest_def scenarioA_required scenarioA_name)

text \<open>
  Claim C2. For the model with a required string \<^verbatim>\<open>label\<close>, a required zero-argument
  callback \<^verbatim>\<open>onClick\<close> and an optional boolean \<^verbatim>\<open>disabled\<close>, under any component
  name and source path, the generated text contains these five cases, each in full: the
  basic render with both required props bound, the \<^verbatim>\<open>disabled\<close> class assertion, the
  click that calls the mock handler once, the click that does not call it while disabled,
  and the aria-disabled case.
\<close>

theorem scenarioA_generated:
  \<open>str_includes (generate (scenarioA n) path) (''\<newline>    it("should render '' @ n @ '' component", () => {\<newline>        render(<'' @ n @ '' label="Test Label" onClick={() => {}} />);\<newline>        \<newline>        expect(screen.getByRole("'' @ getExpectedRole (scenarioA n) @ ''")).toBeInTheDocument();\<newline>    });'')
   \<and> str_includes (generate (scenarioA n) path) (''\<newline>    it("should handle disabled prop", () => {\<newline>        const requiredProps = { label: "Test Label", onClick: () => {} };\<newline>        \<newline>        render(<'' @ n @ '' {...requiredProps} disabled />);\<newline>        \<newline>        const element = screen.getByRole("'' @ getExpectedRole (scenarioA n) @ ''");\<newline>        expect(element).toHaveClass("disabled");\<newline>    });'')
   \<and> str_includes (generate (scenarioA n) path) (''\<newline>    it("should call onClick handler when clicked", () => {\<newline>        const handleClick = jest.fn();\<newline>        const requiredProps = { label: "Test Label", onClick: () => {} };\<newline>        \<newline>        render(<'' @ n @ '' {...requiredProps} onClick={handleClick} />);\<newline>        \<newline>        const element = screen.getByRole("'' @ getExpectedRole (scenarioA n) @ ''");\<newline>        fireEvent.click(element);\<newline>        \<newline>        expect(handleClick).toHaveBeenCalledTimes(1);\<newline>    });'')
   \<and> str_includes (generate (scenarioA n) path) (''\<newline>    it("should not call onClick when disabled", () => {\<newline>        const handleClick = jest.fn();\<newline>        const requiredProps = { label: "Test Label", onClick: () => {} };\<newline>        \<newline>        render(<'' @ n @ '' {...requiredProps} onClick={handleClick} disabled />);\<newline>        \<newline>        const element = screen.getByRole("'' @ getExpectedRole (scenarioA n) @ ''");\<newline>        fireEvent.click(element);\<newline>        \<newline>        expect(handleClick).not.toHaveBeenCalled();\<newline>    });'')
   \<and> str_includes (generate (scenarioA n) path) (''\<newline>    it("should have correct aria-disabled when disabled", () => {\<newline>        const requiredProps = { label: "Test Label", onClick: () => {} };\<newline>        \<newline>        render(<'' @ n @ '' {...requiredProps} disabled />);\<newline>        \<newline>        const element = screen.getByRole("'' @ getExpectedRole (scenarioA n) @ ''");\<newline>        expect(element).toBeDisabled();\<newline>    });'')\<close>
proof -
  have "str_includes (generate (scenarioA n) path) (tc_code (createBasicRenderTest (scenarioA n)))"
    by (rule generate_includes_case) (simp add: scenarioA_cases)
  moreover
  have "str_includes (generate (scenarioA n) path)
          (tc_code (booleanPropTest (mkProp ''disabled'' ''boolean'' True) (scenarioA n)))"
    by (rule generate_includes_case) (simp add: scenarioA_cases)
  moreover
  have "str_includes (generate (scenarioA n) path) (tc_code (onClickCalledTest (scenarioA n)))"
    by (rule generate_includes_case) (simp add: scenarioA_cases)
  moreover
  have "str_includes (generate (scenarioA n) path) (tc_code (onClickDisabledTest (scenarioA n)))"
    by (rule generate_includes_case) (simp add: scenarioA_cases)
  moreover
  have "str_includes (generate (scenarioA n) path) (tc_code (ariaDisabledTest (scenarioA n)))"
    by (rule generate_includes_case) (simp add: scenarioA_cases)
  ultimately show ?thesis
    unfolding scenarioA_basic_code scenarioA_disabled_code scenarioA_onClick_code
      scenarioA_onClick_disabled_code scenarioA_aria_code
    by blast
qed


text \<open>The README's component, \<^verbatim>\<open>Button\<close> in \<^verbatim>\<open>src/components/Button.tsx\<close>.\<close>

lemma scenarioA_Button_role: \<open>getExpectedRole (scenarioA ''Button'') = ''button''\<close>
  by (simp add: getExpectedRole_def scenarioA_def mkModel_def toLowerCase_def char_class_defs
      startsWith_def Let_def)

theorem scenarioA_generated_witness:
  \<open>str_includes (generate (scenarioA ''Button'') ''src/components/Button.tsx'') (''\<newline>    it("should render Button component", () => {\<newline>        render(<Button label="Test Label" onClick={() => {}} />);\<newline>        \<newline>        expect(screen.getByRole("button")).toBeInTheDocument();\<newline>    });'')
   \<and> str_includes (generate (scenarioA ''Button'') ''src/components/Button.tsx'') (''\<newline>    it("should handle disabled prop", () => {\<newline>        const requiredProps = { label: "Test Label", onClick: () => {} };\<newline>        \<newline>        render(<Button {...requiredProps} disabled />);\<newline>        \<newline>        const element = screen.getByRole("button");\<newline>        expect(element).toHaveClass("disabled");\<newline>    });'')
   \<and> str_includes (generate (scenarioA ''Button'') ''src/components/Button.tsx'') (''\<newline>    it("should call onClick handler when clicked", () => {\<newline>        const handleClick = jest.fn();\<newline>        const requiredProps = { label: "Test Label", onClick: () => {} };\<newline>        \<newline>        render(<Button {...requiredProps} onClick={handleClick} />);\<newline>        \<newline>        const element = screen.getByRole("button");\<newline>        fireEvent.click(element);\<newline>        \<newline>        expect(handleClick).toHaveBeenCalledTimes(1);\<newline>    });'')
   \<and> str_includes (generate (scenarioA ''Button'') ''src/components/Button.tsx'') (''\<newline>    it("should not call onClick when disabled", () => {\<newline>        const handleClick = jest.fn();\<newline>        const requiredProps = { label: "Test Label", onClick: () => {} };\<newline>        \<newline>        render(<Button {...requiredProps} onClick={handleClick} disabled />);\<newline>        \<newline>        const element = screen.getByRole("button");\<newline>        fireEvent.click(element);\<newline>        \<newline>        expect(handleClick).not.toHaveBeenCalled();\<newline>    });'')
   \<and> str_includes (generate (scenarioA ''Button'') ''src/components/Button.tsx'') (''\<newline>    it("should have correct aria-disabled when disabled", () => {\<newline>        const requiredProps = { label: "Test Label", onClick: () => {} };\<newline>        \<newline>        render(<Button {...requiredProps} disabled />);\<newline>        \<newline>        const element = screen.getByRole("button");\<newline>        expect(element).toBeDisabled();\<newline>    });'')\<close>
  using scenarioA_generated [of "''Button''" "''src/components/Button.tsx''"]
  unfolding scenarioA_Button_role by simp

subsection \<open>Union-typed props\<close>

lemma length_str_split: "length (str_split d s) = Suc (count_list s d)"
  by (induction s) (auto split: list.splits)


















subsection \<open>Event props\<close>

lemma onChange_cases:
  "generateTestCases onChangeModel = [createBasicRenderTest onChangeModel, keyboardTest onChangeModel]"
  by (simp add: generateTestCases_def onChangeModel_def mkModel_def mkProp_def createPropTests_def
      createEventTests_def isEventProp_def startsWith_def callbackMarker_def hasProp_def
      createConditionalRenderingTests_def createAccessibilityTests_def)

lemma onChange_text: \<open>generate onChangeModel ''src/Input.tsx'' =
  ''import React from "react";\<newline>import { render, screen, fireEvent } from "@testing-library/react";\<newline>import "@testing-library/jest-dom";\<newline>import { Input } from "../Input";\<newline>\<newline>/**\<newline> * Test suite for the Input component.\<newline> */\<newline>describe("Input Component", () => {\<newline>    it("should render Input component", () => {\<newline>        render(<Input onChange={() => {}} />);\<newline>        \<newline>        expect(screen.getByRole("textbox")).toBeInTheDocument();\<newline>    });\<newline>\<newline>    it("should be accessible via keyboard", () => {\<newline>        const requiredProps = { onChange: () => {} };\<newline>        \<newline>        render(<Input {...requiredProps} />);\<newline>        \<newline>        const element = screen.getByRole("textbox");\<newline>        expect(element).not.toHaveAttribute("tabIndex", "-1");\<newline>    });\<newline>});\<newline>''\<close>
  unfolding generate_def onChange_cases
  by (simp add: buildTestFile_def generateImports_def
      createBasicRenderTest_def keyboardTest_def getRequiredPropsObject_def requiredPropEntry_def
      onChangeModel_def mkModel_def mkProp_def getDefaultPropValue_def callbackMarker_def
      overrideOr_def objectPrototypeText_def
      getExpectedRole_def toLowerCase_def char_class_defs getImportPath_def stripExtension_def
      endsWith_def startsWith_def Let_def)

lemma onChange_names:
  \<open>map tc_name (generateTestCases onChangeModel)
       = [''should render Input component'', ''should be accessible via keyboard'']\<close>
  unfolding onChange_cases
  by (simp add: createBasicRenderTest_def keyboardTest_def onChangeModel_def mkModel_def)

text \<open>
  Claim C4 says that every prop whose name starts with \<^verbatim>\<open>on\<close>, or whose type is a
  zero-argument callback, gets an invocation case. The required callback \<^verbatim>\<open>onChange\<close>
  is such a prop on both counts and passes the generator's filter, yet
  \<^verbatim>\<open>createEventTests\<close> returns nothing for it: the suite holds the two fixed cases
  only, and the text never mentions a mock handler.
\<close>

theorem onChange_no_invocation_case:
  \<open>isEventProp (mkProp ''onChange'' ''() => void'' False)
   \<and> startsWith (prop_name (mkProp ''onChange'' ''() => void'' False)) ''on''
   \<and> str_includes (prop_type (mkProp ''onChange'' ''() => void'' False)) ''() => void''
   \<and> mkProp ''onChange'' ''() => void'' False \<in> set (props onChangeModel)
   \<and> createEventTests (mkProp ''onChange'' ''() => void'' False) onChangeModel = []
   \<and> map tc_name (generateTestCases onChangeModel)
       = [''should render Input component'', ''should be accessible via keyboard'']
   \<and> \<not> str_includes (generate onChangeModel ''src/Input.tsx'') ''jest.fn()''
   \<and> \<not> str_includes (generate onChangeModel ''src/Input.tsx'') ''toHaveBeenCalled''\<close>
proof (intro conjI)
  show \<open>\<not> str_includes (generate onChangeModel ''src/Input.tsx'') ''jest.fn()''\<close>
    unfolding onChange_text by (simp add: startsWith_def)
  show \<open>\<not> str_includes (generate onChangeModel ''src/Input.tsx'') ''toHaveBeenCalled''\<close>
    unfolding onChange_text by (simp add: startsWith_def)
  show \<open>map tc_name (generateTestCases onChangeModel)
       = [''should render Input component'', ''should be accessible via keyboard'']\<close>
    by (rule onChange_names)
qed (simp_all add: isEventProp_def startsWith_def mkProp_def callbackMarker_def onChangeModel_def
      mkModel_def createEventTests_def)


lemma onClick_is_event: \<open>prop_name p = ''onClick'' \<Longrightarrow> isEventProp p\<close>
  by (simp add: isEventProp_def startsWith_def)

lemma onClick_case_generated:
  assumes \<open>p \<in> set (props a)\<close> and \<open>prop_name p = ''onClick''\<close>
  shows "onClickCalledTest a \<in> set (generateTestCases a)"
proof -
  have "p \<in> set (filter isEventProp (props a))"
    using assms onClick_is_event by simp
  moreover have "onClickCalledTest a \<in> set (createEventTests p a)"
    using assms by (simp add: createEventTests_def)
  ultimately show ?thesis
    unfolding generateTestCases_def by auto
qed

text \<open>
  Claim C4, amended. A prop named \<^verbatim>\<open>onClick\<close> gets the invocation case: it installs the
  mock handler, clicks, and asserts one call; the case is the first of the prop's event
  cases and is in the generated text. A prop of any other name gets no event case.
\<close>

theorem onClick_invocation_case:
  assumes \<open>p \<in> set (props a)\<close> and \<open>prop_name p = ''onClick''\<close>
  shows \<open>createEventTests p a
           = onClickCalledTest a # (if hasProp a ''disabled'' then [onClickDisabledTest a] else [])
    \<and> str_includes (generate a path) (tc_code (onClickCalledTest a))
    \<and> str_includes (tc_code (onClickCalledTest a)) ''const handleClick = jest.fn();''
    \<and> str_includes (tc_code (onClickCalledTest a)) ''fireEvent.click(element);''
    \<and> str_includes (tc_code (onClickCalledTest a)) ''expect(handleClick).toHaveBeenCalledTimes(1);''
    \<and> (prop_name q = ''onClick'' \<or> createEventTests q a = [])\<close>
proof (intro conjI)
  show \<open>createEventTests p a
           = onClickCalledTest a # (if hasProp a ''disabled'' then [onClickDisabledTest a] else [])\<close>
    using assms by (simp add: createEventTests_def)
  show "str_includes (generate a path) (tc_code (onClickCalledTest a))"
    using assms by (intro generate_includes_case onClick_case_generated)
  show \<open>str_includes (tc_code (onClickCalledTest a)) ''const handleClick = jest.fn();''\<close>
    unfolding onClickCalledTest_def TestCase.select_convs
    by (rule str_includes_appendR) (simp add: startsWith_def)
  show \<open>str_includes (tc_code (onClickCalledTest a)) ''fireEvent.click(element);''\<close>
    unfolding onClickCalledTest_def TestCase.select_convs
    by (rule str_includes_appendL)+ (simp add: startsWith_def)
  show \<open>str_includes (tc_code (onClickCalledTest a))
          ''expect(handleClick).toHaveBeenCalledTimes(1);''\<close>
    unfolding onClickCalledTest_def TestCase.select_convs
    by (rule str_includes_appendL)+ (simp add: startsWith_def)
  show \<open>prop_name q = ''onClick'' \<or> createEventTests q a = []\<close>
    by (simp add: createEventTests_def)
qed

text \<open>The \<^verbatim>\<open>onClick\<close> prop of the README's button, beside a prop \<^verbatim>\<open>onChange\<close>.\<close>

theorem onClick_invocation_case_witness:
  \<open>mkProp ''onClick'' ''() => void'' False \<in> set (props (scenarioA ''Button''))
   \<and> prop_name (mkProp ''onClick'' ''() => void'' False) = ''onClick''
   \<and> createEventTests (mkProp ''onClick'' ''() => void'' False) (scenarioA ''Button'')
       = [onClickCalledTest (scenarioA ''Button''), onClickDisabledTest (scenarioA ''Button'')]
   \<and> str_includes (generate (scenarioA ''Button'') ''src/components/Button.tsx'')
        (tc_code (onClickCalledTest (scenarioA ''Button'')))
   \<and> createEventTests (mkProp ''onChange'' ''() => void'' False) (scenarioA ''Button'') = []\<close>
proof -
  have m: \<open>mkProp ''onClick'' ''() => void'' False \<in> set (props (scenarioA ''Button''))\<close>
    by (simp add: scenarioA_def mkModel_def)
  have n: \<open>prop_name (mkProp ''onClick'' ''() => void'' False) = ''onClick''\<close>
    by (simp add: mkProp_def)
  have d: \<open>hasProp (scenarioA ''Button'') ''disabled''\<close>
    by (simp add: hasProp_def scenarioA_def mkModel_def mkProp_def)
  have o: \<open>prop_name (mkProp ''onChange'' ''() => void'' False) \<noteq> ''onClick''\<close>
    by (simp add: mkProp_def)
  from onClick_invocation_case [OF m n, where q = "mkProp ''onChange'' ''() => void'' False"
      and path = "''src/components/Button.tsx''"] m n d o
  show ?thesis by simp
qed

section \<open>Properties of the verifier\<close>

lemma resolve_Some [simp]: "resolve r (Some first) = Some first"
  by (simp add: resolve_def)

lemma resolve_None [simp]: "resolve r None = Some r"
  by (simp add: resolve_def)

lemma closePending_Some [simp]: "closePending b (Some first) = Some first"
  by (simp add: closePending_def)

lemma closePending_None [simp]:
  "closePending b None = (if b then Some failedStartResult else None)"
  by (simp add: closePending_def)

lemma resolve_ex: "\<exists>y. resolve r p = Some y"
  by (cases p) simp_all

lemma closePending_resolve [simp]: "closePending b (resolve r p) = resolve r p"
  by (cases p) simp_all

lemma onClose_failed_start: "onClose (Some spawnErrorCode) [] = Resolve failedStartResult"
  by (simp add: onClose_def spawnErrorCode_def failedStartResult_def startsWith_def)

lemma tryNextCommand_settled:
  "tryNextCommand spawn commands projectRoot i pending (Some first) = Some first"
proof (induction spawn commands projectRoot i pending "Some first" rule: tryNextCommand.induct)
  case (1 spawn commands projectRoot i pending)
  show ?case
    using 1 by (subst tryNextCommand.simps)
      (auto split: spawnOutcome.splits closeAction.splits)
qed

lemma tryNextCommand_returns:
  "\<exists>r. tryNextCommand spawn commands projectRoot i pending promise = Some r"
proof (induction spawn commands projectRoot i pending promise rule: tryNextCommand.induct)
  case (1 spawn commands projectRoot i pending promise)
  show ?case
    using 1 by (subst tryNextCommand.simps)
      (auto simp: resolve_ex split: spawnOutcome.splits closeAction.splits)
qed

lemma noCommandStarts_result:
  "tryNextCommand noCommandStarts commands projectRoot i pending None = Some noRunnerResult"
proof (induction noCommandStarts commands projectRoot i pending "None :: TestResult option"
    rule: tryNextCommand.induct)
  case (1 commands projectRoot i pending)
  show ?case
    using 1 by (subst tryNextCommand.simps) (auto simp: noCommandStarts_def closePending_def)
qed

lemma all_fail_result:
  assumes "\<forall>c \<in> set commands. spawn (hd c) (tl c) projectRoot = FailedToStart"
  shows "tryNextCommand spawn commands projectRoot i pending None = Some noRunnerResult"
  using assms
proof (induction spawn commands projectRoot i pending "None :: TestResult option"
    rule: tryNextCommand.induct)
  case (1 spawn commands projectRoot i pending)
  show ?case
  proof (cases "i \<ge> length commands")
    case True
    then show ?thesis by (subst tryNextCommand.simps) (simp add: closePending_def)
  next
    case False
    with "1.prems" have f: "spawn (hd (commands ! i)) (tl (commands ! i)) projectRoot = FailedToStart"
      by simp
    with False "1.hyps"(1) "1.prems" show ?thesis
      by (subst tryNextCommand.simps) simp
  qed
qed

lemma tryNextCommand_success:
  assumes "tryNextCommand spawn commands projectRoot i pending None = Some r" and "success r"
  shows "\<exists>j out err. i \<le> j \<and> j < length commands
           \<and> spawn (hd (commands ! j)) (tl (commands ! j)) projectRoot = Closed (Some 0) out err
           \<and> r = \<lparr> success = True, errors = [], outputText = out @ err \<rparr>"
  using assms
proof (induction spawn commands projectRoot i pending "None :: TestResult option"
    rule: tryNextCommand.induct)
  case (1 spawn commands projectRoot i pending)
  note unfold = tryNextCommand.simps [of spawn commands projectRoot i pending None]
  show ?case
  proof (cases "i \<ge> length commands")
    case True
    with "1.prems" show ?thesis
      by (auto simp: unfold noRunnerResult_def)
  next
    case False
    show ?thesis
    proof (cases "spawn (hd (commands ! i)) (tl (commands ! i)) projectRoot")
      case FailedToStart
      with False "1.prems" have "tryNextCommand spawn commands projectRoot (i + 1) True None = Some r"
        by (simp add: unfold)
      with "1.hyps"(1) False FailedToStart \<open>success r\<close>
      obtain j out err where "i + 1 \<le> j" "j < length commands"
        "spawn (hd (commands ! j)) (tl (commands ! j)) projectRoot = Closed (Some 0) out err"
        "r = \<lparr> success = True, errors = [], outputText = out @ err \<rparr>"
        by blast
      then show ?thesis by (intro exI [of _ j]) auto
    next
      case (Closed code out err)
      show ?thesis
      proof (cases pending)
        case True
        with False Closed "1.prems" show ?thesis
          by (subst (asm) tryNextCommand.simps)
            (auto simp: tryNextCommand_settled failedStartResult_def split: closeAction.splits)
      next
        case np: False
        note unfoldF = tryNextCommand.simps [of spawn commands projectRoot i False None]
        show ?thesis
        proof (cases "onClose code (out @ err)")
          case (Resolve r')
          with False Closed np "1.prems" have r: "r' = r" by (simp add: unfoldF)
          with Resolve \<open>success r\<close> have "code = Some 0"
            by (auto simp: onClose_def split: if_splits)
          with Resolve r have "r = \<lparr> success = True, errors = [], outputText = out @ err \<rparr>"
            by (simp add: onClose_def)
          with False Closed \<open>code = Some 0\<close> show ?thesis
            by (intro exI [of _ i]) auto
        next
          case TryNext
          with False Closed np "1.prems"
          have "tryNextCommand spawn commands projectRoot (i + 1) False None = Some r"
            by (simp add: unfoldF)
          with "1.hyps"(2) False Closed TryNext np \<open>success r\<close>
          obtain j out' err' where "i + 1 \<le> j" "j < length commands"
            "spawn (hd (commands ! j)) (tl (commands ! j)) projectRoot = Closed (Some 0) out' err'"
            "r = \<lparr> success = True, errors = [], outputText = out' @ err' \<rparr>"
            by (auto simp: closePending_def)
          then show ?thesis by (intro exI [of _ j]) auto
        qed
      qed
    qed
  qed
qed

lemma first_candidate_decides:
  assumes "commands \<noteq> []"
    and "spawn (hd (hd commands)) (tl (hd commands)) projectRoot = Closed code out err"
    and "onClose code (out @ err) = Resolve r"
  shows "tryNextCommand spawn commands projectRoot 0 False None = Some r"
    and "success r \<longleftrightarrow> code = Some 0"
  using assms
  by (subst tryNextCommand.simps, auto simp: hd_conv_nth onClose_def split: if_splits)+

lemma jestMissing_passes:
  \<open>runTests jestMissing ''src/__tests__/B.test.tsx'' ''/project''
     = Some \<lparr> success = True, errors = [], outputText = ''1 passed'' \<rparr>\<close>
  unfolding runTests_def
  by (subst tryNextCommand.simps, simp add: testCommands_def jestMissing_def onClose_def
        startsWith_def)+

text \<open>
  Claim C6 says that the result has \<^verbatim>\<open>success\<close> true exactly when the runner that was
  started ended with exit status zero, and that the result is the failure with the fixed
  message about the missing runner when every candidate fails to start. The second part
  holds (\<open>all_fail_result\<close>), and a successful result always comes from a candidate that
  closed with code zero (\<open>tryNextCommand_success\<close>). The converse fails. When \<^verbatim>\<open>npx\<close>
  cannot be started, the handler of \<^verbatim>\<open>error\<close> goes on to \<^verbatim>\<open>npm test\<close>, as its comment
  says; but the handler of \<^verbatim>\<open>close\<close> of the failed process is not held back, and it
  resolves the promise with a failure whose texts are empty while \<^verbatim>\<open>npm test\<close> is still
  running. The success of \<^verbatim>\<open>npm test\<close>, with exit status zero, comes too late.
\<close>

theorem failed_start_hides_passing_runner:
  \<open>npxMissing ''npx'' [''jest'', testFilePath, ''--no-coverage'', ''--verbose''] projectRoot
     = FailedToStart
   \<and> npxMissing ''npm'' [''test'', ''--'', testFilePath] projectRoot
     = Closed (Some 0) ''1 passed'' []
   \<and> runTests npxMissing testFilePath projectRoot
     = Some \<lparr> success = False, errors = [], outputText = [] \<rparr>
   \<and> runTests noCommandStarts testFilePath projectRoot
     = Some \<lparr> success = False,
              errors = ''No suitable test runner found. Please ensure Jest, Vitest, or npm test is available.'',
              outputText = [] \<rparr>\<close>
proof -
  have a: "runTests npxMissing testFilePath projectRoot = Some failedStartResult"
    unfolding runTests_def
    by (subst tryNextCommand.simps, simp add: testCommands_def npxMissing_def onClose_def)+
  have b: "runTests noCommandStarts testFilePath projectRoot = Some noRunnerResult"
    unfolding runTests_def by (rule noCommandStarts_result)
  from a b show ?thesis
    by (simp add: noRunnerResult_def noRunnerMessage_def failedStartResult_def npxMissing_def)
qed

section \<open>Properties of the repair loop\<close>

lemma whileLoop_done:
  "allTestsPassed st \<or> iteration st > maxIterations \<Longrightarrow> whileLoop run repair st = (ConditionFalse, st)"
  by (subst whileLoop.simps) auto

lemma whileLoop_run:
  assumes "\<not> allTestsPassed st" and "iteration st \<le> maxIterations"
  shows "\<exists>vs. vs \<noteq> [] \<and> hd vs = testCode st
           \<and> trace (snd (whileLoop run repair st)) = trace st @ loopEvents (iteration st) vs
           \<and> repairChain run repair (iteration st) vs
           \<and> (endsPassed run st vs (fst (whileLoop run repair st)) (snd (whileLoop run repair st))
              \<or> endsStalled run repair st vs (fst (whileLoop run repair st)) (snd (whileLoop run repair st))
              \<or> endsExhausted run repair st vs (fst (whileLoop run repair st)) (snd (whileLoop run repair st)))"
  using assms
proof (induction run repair st rule: whileLoop.induct)
  case (1 run repair st)
  let ?c = "testCode st" and ?i = "iteration st"
  let ?st2 = "st\<lparr> trace := trace st @ [WriteFile ?c, RunTests ?i] \<rparr>"
  let ?res = "run ?i ?c"
  from "1.prems" have enter: "\<not> allTestsPassed st \<and> iteration st \<le> maxIterations" by simp
  show ?case
  proof (cases "success ?res")
    case True
    let ?st3 = "?st2\<lparr> allTestsPassed := True, finalResult := passedText ?i ?c \<rparr>"
    have "whileLoop run repair st = whileLoop run repair ?st3"
      using enter True by (subst whileLoop.simps) (simp add: Let_def)
    also have "\<dots> = (ConditionFalse, ?st3)"
      by (rule whileLoop_done) simp
    finally have w: "whileLoop run repair st = (ConditionFalse, ?st3)" .
    have "endsPassed run st [?c] (fst (whileLoop run repair st)) (snd (whileLoop run repair st))"
      using enter True unfolding w endsPassed_def by simp
    moreover have "trace (snd (whileLoop run repair st)) = trace st @ loopEvents ?i [?c]"
      unfolding w by simp
    ultimately show ?thesis
      by (intro exI [of _ "[?c]"]) simp
  next
    case False
    let ?fixed = "repair ?c (errors ?res)"
    show ?thesis
    proof (cases "?fixed = ?c")
      case True
      let ?st3 = "?st2\<lparr> finalResult := stalledText ?i (errors ?res) ?c \<rparr>"
      have w: "whileLoop run repair st = (Break, ?st3)"
        using enter False True by (subst whileLoop.simps) (simp add: Let_def)
      have "endsStalled run repair st [?c] (fst (whileLoop run repair st)) (snd (whileLoop run repair st))"
        using enter False True unfolding w endsStalled_def by simp
      moreover have "trace (snd (whileLoop run repair st)) = trace st @ loopEvents ?i [?c]"
        unfolding w by simp
      ultimately show ?thesis
        by (intro exI [of _ "[?c]"]) simp
    next
      case changed: False
      let ?st3 = "?st2\<lparr> testCode := ?fixed, iteration := ?i + 1 \<rparr>"
      have w: "whileLoop run repair st = whileLoop run repair ?st3"
        using enter False changed by (subst whileLoop.simps) (simp add: Let_def)
      show ?thesis
      proof (cases "?i + 1 \<le> maxIterations")
        case True
        have "\<exists>vs. vs \<noteq> [] \<and> hd vs = testCode ?st3
           \<and> trace (snd (whileLoop run repair ?st3)) = trace ?st3 @ loopEvents (iteration ?st3) vs
           \<and> repairChain run repair (iteration ?st3) vs
           \<and> (endsPassed run ?st3 vs (fst (whileLoop run repair ?st3)) (snd (whileLoop run repair ?st3))
              \<or> endsStalled run repair ?st3 vs (fst (whileLoop run repair ?st3)) (snd (whileLoop run repair ?st3))
              \<or> endsExhausted run repair ?st3 vs (fst (whileLoop run repair ?st3)) (snd (whileLoop run repair ?st3)))"
          using enter False changed True
          by (intro "1.IH"(2) [of "st\<lparr> trace := trace st @ [WriteFile ?c] \<rparr>" ?res ?st2 ?fixed]) simp_all
        then obtain vs where vs: "vs \<noteq> []" "hd vs = ?fixed"
          and tr: "trace (snd (whileLoop run repair ?st3)) = trace ?st3 @ loopEvents (Suc ?i) vs"
          and ch: "repairChain run repair (Suc ?i) vs"
          and en: "endsPassed run ?st3 vs (fst (whileLoop run repair ?st3)) (snd (whileLoop run repair ?st3))
              \<or> endsStalled run repair ?st3 vs (fst (whileLoop run repair ?st3)) (snd (whileLoop run repair ?st3))
              \<or> endsExhausted run repair ?st3 vs (fst (whileLoop run repair ?st3)) (snd (whileLoop run repair ?st3))"
          by auto
        from vs obtain v vs' where v: "vs = v # vs'" "v = ?fixed" by (cases vs) auto
        have "repairChain run repair ?i (?c # vs)"
          using ch False changed v by simp
        moreover have "trace (snd (whileLoop run repair st)) = trace st @ loopEvents ?i (?c # vs)"
          unfolding w tr by simp
        moreover have "endsPassed run st (?c # vs) (fst (whileLoop run repair st)) (snd (whileLoop run repair st))
              \<or> endsStalled run repair st (?c # vs) (fst (whileLoop run repair st)) (snd (whileLoop run repair st))
              \<or> endsExhausted run repair st (?c # vs) (fst (whileLoop run repair st)) (snd (whileLoop run repair st))"
          using en vs unfolding w endsPassed_def endsStalled_def endsExhausted_def by auto
        ultimately show ?thesis
          by (intro exI [of _ "?c # vs"]) simp
      next
        case last: False
        then have i: "?i = maxIterations" using enter by simp
        have w': "whileLoop run repair st = (ConditionFalse, ?st3)"
          unfolding w using last by (intro whileLoop_done) simp
        have "endsExhausted run repair st [?c] (fst (whileLoop run repair st)) (snd (whileLoop run repair st))"
          using enter False changed i unfolding w' endsExhausted_def by simp
        moreover have "trace (snd (whileLoop run repair st)) = trace st @ loopEvents ?i [?c]"
          unfolding w' by simp
        ultimately show ?thesis
          by (intro exI [of _ "[?c]"]) simp
      qed
    qed
  qed
qed

lemma runsOf_loopEvents: "runsOf (loopEvents i vs) = [i..<i + length vs]"
proof (induction vs arbitrary: i)
  case Nil
  then show ?case by (simp add: runsOf_def)
next
  case (Cons c vs)
  have "runsOf (loopEvents i (c # vs)) = i # runsOf (loopEvents (Suc i) vs)"
    by (simp add: runsOf_def)
  also have "\<dots> = i # [Suc i..<Suc i + length vs]"
    by (simp add: Cons.IH)
  also have "\<dots> = [i..<i + length (c # vs)]"
    by (simp add: upt_rec)
  finally show ?case .
qed

lemma writesOf_loopEvents: "writesOf (loopEvents i vs) = vs"
  by (induction vs arbitrary: i) (simp_all add: writesOf_def)

lemma runsOf_append: "runsOf (xs @ ys) = runsOf xs @ runsOf ys"
  by (simp add: runsOf_def)

lemma writesOf_append: "writesOf (xs @ ys) = writesOf xs @ writesOf ys"
  by (simp add: writesOf_def)

text \<open>
  Claim C5. For any verifier and any repairer, the loop ends in one of the three terminal
  states after at most five iterations. The counter starts at 1; the tests ran in the
  iterations \<open>1, \<dots>, n\<close> with \<open>n \<le> 5\<close>, each time on the source written just before.
  Each verified source but the last failed and was changed by the repair into the next,
  with the counter going up by one. The loop passed when the last verified source passed;
  it stalled when the repair of the last one changed nothing; it was exhausted when the
  fifth repair still changed the source. In every case the last event is one more write
  of the final source.
\<close>

theorem loop_reaches_terminal_state:
  "(let r = generateTestsLoop run repair code;
        st = snd r;
        n = length (runsOf (trace st));
        verified = butlast (writesOf (trace st))
    in 1 \<le> n \<and> n \<le> 5
     \<and> runsOf (trace st) = [1..<Suc n]
     \<and> length verified = n
     \<and> hd verified = code
     \<and> repairChain run repair 1 verified
     \<and> trace st = loopEvents 1 verified @ [WriteFile (testCode st)]
     \<and> (case terminal r of
           PASSED \<Rightarrow> iteration st = n \<and> testCode st = last verified
                      \<and> success (run n (testCode st))
                      \<and> finalResult st = passedText n (testCode st)
         | STALLED \<Rightarrow> iteration st = n \<and> testCode st = last verified
                      \<and> \<not> success (run n (testCode st))
                      \<and> repair (testCode st) (errors (run n (testCode st))) = testCode st
                      \<and> finalResult st
                          = stalledText n (errors (run n (testCode st))) (testCode st)
         | EXHAUSTED \<Rightarrow> n = 5 \<and> iteration st = 6
                      \<and> \<not> success (run 5 (last verified))
                      \<and> testCode st = repair (last verified) (errors (run 5 (last verified)))
                      \<and> testCode st \<noteq> last verified
                      \<and> finalResult st = exhaustedText (testCode st)))"
proof -
  let ?st0 = "initialState code"
  let ?w = "whileLoop run repair ?st0"
  have "\<not> allTestsPassed ?st0" and "iteration ?st0 \<le> maxIterations"
    by (simp_all add: initialState_def maxIterations_def)
  from whileLoop_run [OF this, of run repair]
  obtain vs where vs: "vs \<noteq> []" "hd vs = code"
    and tr: "trace (snd ?w) = loopEvents 1 vs"
    and ch: "repairChain run repair 1 vs"
    and en: "endsPassed run ?st0 vs (fst ?w) (snd ?w)
              \<or> endsStalled run repair ?st0 vs (fst ?w) (snd ?w)
              \<or> endsExhausted run repair ?st0 vs (fst ?w) (snd ?w)"
    by (auto simp: initialState_def)
  obtain ex st' where w: "?w = (ex, st')" by (cases ?w)
  have r: "generateTestsLoop run repair code = (ex, afterLoop st')"
    by (simp add: generateTestsLoop_def w)
  have tr': "trace (afterLoop st') = loopEvents 1 vs @ [WriteFile (testCode (afterLoop st'))]"
    using tr unfolding w by (simp add: afterLoop_def Let_def)
  have runs: "runsOf (trace (afterLoop st')) = [1..<Suc (length vs)]"
    unfolding tr' by (simp add: runsOf_append runsOf_loopEvents) (simp add: runsOf_def)
  have writes: "writesOf (trace (afterLoop st')) = vs @ [testCode (afterLoop st')]"
    unfolding tr' by (simp add: writesOf_append writesOf_loopEvents) (simp add: writesOf_def)
  have len: "1 \<le> length vs" using vs by (cases vs) auto
  have i0: "iteration ?st0 = 1" by (simp add: initialState_def)
  from en have bound: "length vs \<le> 5"
    unfolding endsPassed_def endsStalled_def endsExhausted_def w i0
    by (auto simp: maxIterations_def)
  from en show ?thesis
  proof (elim disjE)
    assume "endsPassed run ?st0 vs (fst ?w) (snd ?w)"
    then have e: "allTestsPassed st'" "iteration st' = length vs" "testCode st' = last vs"
      "success (run (iteration st') (last vs))"
      "finalResult st' = passedText (iteration st') (last vs)"
      unfolding endsPassed_def w i0 by auto
    then have a: "afterLoop st' = st'\<lparr> trace := trace st' @ [WriteFile (testCode st')] \<rparr>"
      by (simp add: afterLoop_def)
    have t: "terminal (ex, afterLoop st') = PASSED"
      using e by (simp add: terminal_def a)
    show ?thesis
      unfolding Let_def r snd_conv t runs writes
      using e vs len bound ch tr' by (simp add: a)
  next
    assume "endsStalled run repair ?st0 vs (fst ?w) (snd ?w)"
    then have e: "\<not> allTestsPassed st'" "ex = Break" "iteration st' = length vs"
      "iteration st' \<le> maxIterations" "testCode st' = last vs"
      "\<not> success (run (iteration st') (last vs))"
      "repair (last vs) (errors (run (iteration st') (last vs))) = last vs"
      "finalResult st'
         = stalledText (iteration st') (errors (run (iteration st') (last vs))) (last vs)"
      unfolding endsStalled_def w i0 by auto
    then have a: "afterLoop st' = st'\<lparr> trace := trace st' @ [WriteFile (testCode st')] \<rparr>"
      by (simp add: afterLoop_def)
    have t: "terminal (ex, afterLoop st') = STALLED"
      using e by (simp add: terminal_def a)
    show ?thesis
      unfolding Let_def r snd_conv t runs writes
      using e vs len bound ch tr' by (simp add: a)
  next
    assume "endsExhausted run repair ?st0 vs (fst ?w) (snd ?w)"
    then have e: "\<not> allTestsPassed st'" "ex = ConditionFalse" "iteration st' = 6"
      "length vs = 5" "\<not> success (run 5 (last vs))"
      "testCode st' = repair (last vs) (errors (run 5 (last vs)))" "testCode st' \<noteq> last vs"
      unfolding endsExhausted_def w i0 by (auto simp: maxIterations_def)
    then have a: "afterLoop st' = st'\<lparr> finalResult := exhaustedText (testCode st'),
        trace := trace st' @ [WriteFile (testCode st')] \<rparr>"
      by (simp add: afterLoop_def maxIterations_def)
    have t: "terminal (ex, afterLoop st') = EXHAUSTED"
      using e by (simp add: terminal_def a)
    show ?thesis
      unfolding Let_def r snd_conv t runs writes
      using e vs len bound ch tr' by (simp add: a)
  qed
qed

text \<open>Every verification fails and every repair changes the source: five iterations, six writes.\<close>

lemma alwaysFails_loop:
  \<open>whileLoop alwaysFails appendMark (initialState ''t'') =
     (ConditionFalse,
      \<lparr> iteration = 6, testCode = ''txxxxx'', allTestsPassed = False, finalResult = [],
        trace = loopEvents 1 [''t'', ''tx'', ''txx'', ''txxx'', ''txxxx''] \<rparr>)\<close>
  by (simp add: whileLoop.simps initialState_def alwaysFails_def appendMark_def
      maxIterations_def Let_def)

theorem loop_reaches_terminal_state_witness:
  \<open>terminal (generateTestsLoop alwaysFails appendMark ''t'') = EXHAUSTED
   \<and> runsOf (trace (snd (generateTestsLoop alwaysFails appendMark ''t''))) = [1, 2, 3, 4, 5]
   \<and> writesOf (trace (snd (generateTestsLoop alwaysFails appendMark ''t'')))
       = [''t'', ''tx'', ''txx'', ''txxx'', ''txxxx'', ''txxxxx'']
   \<and> last (trace (snd (generateTestsLoop alwaysFails appendMark ''t''))) = WriteFile ''txxxxx''
   \<and> repairChain alwaysFails appendMark 1
        (butlast (writesOf (trace (snd (generateTestsLoop alwaysFails appendMark ''t'')))))\<close>
proof -
  have r: \<open>generateTestsLoop alwaysFails appendMark ''t'' =
     (ConditionFalse,
      \<lparr> iteration = 6, testCode = ''txxxxx'', allTestsPassed = False,
        finalResult = exhaustedText ''txxxxx'',
        trace = loopEvents 1 [''t'', ''tx'', ''txx'', ''txxx'', ''txxxx''] @ [WriteFile ''txxxxx''] \<rparr>)\<close>
    by (simp add: generateTestsLoop_def alwaysFails_loop afterLoop_def maxIterations_def)
  from loop_reaches_terminal_state [of alwaysFails appendMark "''t''"]
  have \<open>repairChain alwaysFails appendMark 1
        (butlast (writesOf (trace (snd (generateTestsLoop alwaysFails appendMark ''t'')))))\<close>
    by (simp add: Let_def)
  then show ?thesis
    by (simp add: r terminal_def runsOf_def writesOf_def alwaysFails_def appendMark_def)
qed

section \<open>Properties of the source analyzer\<close>

lemma visit_fold:
  "visit parent t a = fold step (preorder parent t) a"
  "visitChildren parent ts a = fold step (preorderAll parent ts) a"
  by (induction parent t a and parent ts a rule: visit_visitChildren.induct)
     (simp_all add: step_def)

lemma componentName_addExport [simp]: "componentName (addExport n a) = componentName a"
  by (simp add: addExport_def)

lemma props_addExport [simp]: "props (addExport n a) = props a"
  by (simp add: addExport_def)

lemma componentName_pushMember [simp]: "componentName (pushMember m a) = componentName a"
  by (cases m) simp_all

lemma componentName_fold_pushMember [simp]: "componentName (fold pushMember ms a) = componentName a"
  by (induction ms arbitrary: a) simp_all

lemma exports_pushMember [simp]: "exports (pushMember m a) = exports a"
  by (cases m) simp_all

lemma exports_fold_pushMember [simp]: "exports (fold pushMember ms a) = exports a"
  by (induction ms arbitrary: a) simp_all

lemma props_pushMember: "props (pushMember m a) = props a @ memberProps m"
  by (cases m) simp_all

lemma props_fold_pushMember: "props (fold pushMember ms a) = props a @ concat (map memberProps ms)"
  by (induction ms arbitrary: a) (simp_all add: props_pushMember)

text \<open>One node: the component name.\<close>

lemma functionNameOf_declared:
  "k = ArrowFunction \<or> k = FunctionExpression \<or> (\<exists>n. k = FunctionDeclaration n) \<Longrightarrow>
   functionNameOf parent k = (case declaredName (parent, k) of Some n \<Rightarrow> n | None \<Rightarrow> [])"
  by (auto simp: functionNameOf_def split: option.splits Kind.splits BindingName.splits
      elim!: boundName.elims)

lemma componentName_step:
  "componentName (step pk a) =
     (case declaredName pk of
        Some n \<Rightarrow> if startsUpper n then n else componentName a
      | None \<Rightarrow> componentName a)"
proof (cases pk)
  case (Pair parent k)
  show ?thesis
  proof (cases k)
    case (VariableDeclaration nm ini)
    then show ?thesis
      unfolding Pair step_def
      by (cases nm; cases ini rule: isFunctionLike.cases)
         (auto simp: analyzeNode_def analyzeVariableDeclaration_def recordComponent_def)
  next
    case (FunctionDeclaration n)
    then show ?thesis
      unfolding Pair step_def
      using functionNameOf_declared [of k parent]
      by (auto simp: analyzeNode_def analyzeFunction_def recordComponent_def Let_def
          split: option.splits)
  next
    case ArrowFunction
    then show ?thesis
      unfolding Pair step_def
      using functionNameOf_declared [of k parent]
      by (auto simp: analyzeNode_def analyzeFunction_def recordComponent_def Let_def
          split: option.splits)
  next
    case FunctionExpression
    then show ?thesis
      unfolding Pair step_def
      using functionNameOf_declared [of k parent]
      by (auto simp: analyzeNode_def analyzeFunction_def recordComponent_def Let_def
          split: option.splits)
  qed (auto simp: Pair step_def analyzeNode_def analyzeImport_def analyzeInterface_def
        analyzeTypeAlias_def analyzeExportAssignment_def split: option.splits)
qed

lemma upperNames_Nil [simp]: "upperNames [] = []"
  by (simp add: upperNames_def map_filter_simps)

lemma upperNames_Cons:
  "upperNames (pk # xs) =
     (case declaredName pk of
        Some n \<Rightarrow> if startsUpper n then n # upperNames xs else upperNames xs
      | None \<Rightarrow> upperNames xs)"
  by (simp add: upperNames_def map_filter_simps split: option.splits)

lemma componentName_fold:
  "componentName (fold step xs a) =
     (if upperNames xs = [] then componentName a else last (upperNames xs))"
proof (induction xs arbitrary: a)
  case Nil
  then show ?case by simp
next
  case (Cons pk xs)
  show ?case
    by (simp add: Cons.IH componentName_step upperNames_Cons split: option.splits)
qed

text \<open>One node: the props.\<close>

lemma props_step: "props (step pk a) = props a @ declaredProps pk"
proof (cases pk)
  case (Pair parent k)
  show ?thesis
    unfolding Pair step_def
    by (cases k)
       (auto simp: analyzeNode_def analyzeImport_def analyzeInterface_def analyzeTypeAlias_def
          analyzeFunction_def analyzeVariableDeclaration_def analyzeExportAssignment_def
          recordComponent_def props_fold_pushMember Let_def
          split: option.splits BindingName.splits)
qed

lemma props_fold: "props (fold step xs a) = props a @ concat (map declaredProps xs)"
  by (induction xs arbitrary: a) (simp_all add: props_step)

text \<open>One node: the exports.\<close>

lemma exports_addExport: "set (exports (addExport n a)) = insert n (set (exports a))"
  by (auto simp: addExport_def)

lemma exports_step_mono: "set (exports a) \<subseteq> set (exports (step pk a))"
proof (cases pk)
  case (Pair parent k)
  show ?thesis
    unfolding Pair step_def
    by (cases k)
       (auto simp: analyzeNode_def analyzeImport_def analyzeInterface_def analyzeTypeAlias_def
          analyzeFunction_def analyzeVariableDeclaration_def analyzeExportAssignment_def
          recordComponent_def exports_addExport Let_def
          split: option.splits BindingName.splits)
qed

lemma exports_fold_mono: "set (exports a) \<subseteq> set (exports (fold step xs a))"
proof (induction xs arbitrary: a)
  case Nil
  then show ?case by simp
next
  case (Cons pk xs)
  have "set (exports a) \<subseteq> set (exports (step pk a))" by (rule exports_step_mono)
  also have "\<dots> \<subseteq> set (exports (fold step xs (step pk a)))" by (rule Cons.IH)
  finally show ?case by simp
qed

lemma exports_step_declared:
  assumes "declaredName pk = Some n" and "startsUpper n"
  shows "n \<in> set (exports (step pk a))"
proof (cases pk)
  case (Pair parent k)
  show ?thesis
  proof (cases k)
    case (VariableDeclaration nm ini)
    with assms show ?thesis
      unfolding Pair step_def
      by (cases nm; cases ini rule: isFunctionLike.cases)
         (auto simp: analyzeNode_def analyzeVariableDeclaration_def recordComponent_def
            exports_addExport)
  next
    case (FunctionDeclaration m)
    with assms show ?thesis
      unfolding Pair step_def
      using functionNameOf_declared [of k parent]
      by (auto simp: analyzeNode_def analyzeFunction_def recordComponent_def Let_def
          exports_addExport)
  next
    case ArrowFunction
    with assms show ?thesis
      unfolding Pair step_def
      using functionNameOf_declared [of k parent]
      by (auto simp: analyzeNode_def analyzeFunction_def recordComponent_def Let_def
          exports_addExport)
  next
    case FunctionExpression
    with assms show ?thesis
      unfolding Pair step_def
      using functionNameOf_declared [of k parent]
      by (auto simp: analyzeNode_def analyzeFunction_def recordComponent_def Let_def
          exports_addExport)
  qed (use assms Pair in auto)
qed

lemma exports_fold_declared: "set (upperNames xs) \<subseteq> set (exports (fold step xs a))"
proof (induction xs arbitrary: a)
  case Nil
  then show ?case by simp
next
  case (Cons pk xs)
  show ?case
  proof (cases "declaredName pk")
    case None
    then show ?thesis using Cons.IH by (simp add: upperNames_Cons)
  next
    case (Some n)
    show ?thesis
    proof (cases "startsUpper n")
      case False
      with Some show ?thesis using Cons.IH by (simp add: upperNames_Cons)
    next
      case True
      have "n \<in> set (exports (step pk a))"
        using Some True by (rule exports_step_declared)
      then have "n \<in> set (exports (fold step xs (step pk a)))"
        using exports_fold_mono by blast
      with Some True show ?thesis using Cons.IH by (simp add: upperNames_Cons)
    qed
  qed
qed

lemma distinct_addExport: "distinct (exports a) \<Longrightarrow> distinct (exports (addExport n a))"
  by (auto simp: addExport_def)

lemma distinct_step: "distinct (exports a) \<Longrightarrow> distinct (exports (step pk a))"
proof (cases pk)
  case (Pair parent k)
  assume "distinct (exports a)"
  then show ?thesis
    unfolding Pair step_def
    by (cases k)
       (auto simp: analyzeNode_def analyzeImport_def analyzeInterface_def analyzeTypeAlias_def
          analyzeFunction_def analyzeVariableDeclaration_def analyzeExportAssignment_def
          recordComponent_def Let_def intro!: distinct_addExport
          split: option.splits BindingName.splits)
qed

lemma distinct_fold: "distinct (exports a) \<Longrightarrow> distinct (exports (fold step xs a))"
  by (induction xs arbitrary: a) (simp_all add: distinct_step)

text \<open>
  Claim C8 says that among several top-level components the last one visited gives the
  model its name. The traversal does not stop at the top level: in a file with the
  top-level functions \<^verbatim>\<open>Header\<close> and \<^verbatim>\<open>Footer\<close>, the second of which declares the
  function \<^verbatim>\<open>Row\<close> in its body, the name of the model is \<^verbatim>\<open>Row\<close>, and \<^verbatim>\<open>Row\<close> is
  among the exports.
\<close>

theorem nested_component_wins:
  \<open>topLevelFunctionNames nestedComponent = [''Header'', ''Footer'']
   \<and> componentName (analyze nestedComponent ''src/Layout.tsx'') = ''Row''
   \<and> componentName (analyze nestedComponent ''src/Layout.tsx'')
       \<noteq> last (topLevelFunctionNames nestedComponent)
   \<and> exports (analyze nestedComponent ''src/Layout.tsx'') = [''Header'', ''Footer'', ''Row'']\<close>
  by (simp add: nestedComponent_def leaf_def map_filter_simps char_class_defs
      analyze_def analyzeNode_def analyzeFunction_def functionNameOf_def
      recordComponent_def addExport_def Let_def)

text \<open>
  Claim C8, amended. The component name of the model is the name of the last node, in the
  order of the traversal and at any depth of the tree, that is an upper-case-named
  function declaration or an upper-case identifier bound to an arrow function or a
  function expression; it is empty when there is none. So with several such declarations,
  at the top level or inside one another, the last one visited wins. Every such name is in
  the list of exports, which holds no name twice.
\<close>

theorem last_component_wins:
  "componentName (analyze sourceFile path)
     = (if componentNames sourceFile = [] then [] else last (componentNames sourceFile))
   \<and> set (componentNames sourceFile) \<subseteq> set (exports (analyze sourceFile path))
   \<and> distinct (exports (analyze sourceFile path))"
  unfolding analyze_def visit_fold componentNames_def upperNames_def [symmetric]
  by (simp add: componentName_fold exports_fold_declared distinct_fold)

text \<open>
  A file with the components \<^verbatim>\<open>Header\<close> and \<^verbatim>\<open>Footer\<close>, in this order, and the file
  in which \<^verbatim>\<open>Footer\<close> declares \<^verbatim>\<open>Row\<close>.
\<close>

lemma twoComponents_names: \<open>componentNames twoComponents = [''Header'', ''Footer'', ''Footer'']\<close>
  by (simp add: componentNames_def twoComponents_def variableStatement_def leaf_def
      map_filter_simps char_class_defs)

lemma nestedComponent_names: \<open>componentNames nestedComponent = [''Header'', ''Footer'', ''Row'']\<close>
  by (simp add: componentNames_def nestedComponent_def leaf_def
      map_filter_simps char_class_defs)

theorem last_component_wins_witness:
  \<open>componentNames twoComponents = [''Header'', ''Footer'', ''Footer'']
   \<and> componentName (analyze twoComponents ''src/Layout.tsx'') = ''Footer''
   \<and> exports (analyze twoComponents ''src/Layout.tsx'') = [''Header'', ''Footer'']
   \<and> componentNames nestedComponent = [''Header'', ''Footer'', ''Row'']
   \<and> componentName (analyze nestedComponent ''src/Nested.tsx'') = ''Row''
   \<and> exports (analyze nestedComponent ''src/Nested.tsx'') = [''Header'', ''Footer'', ''Row'']\<close>
proof -
  have e: \<open>exports (analyze twoComponents ''src/Layout.tsx'') = [''Header'', ''Footer'']\<close>
    by (simp add: analyze_def twoComponents_def variableStatement_def leaf_def analyzeNode_def
        analyzeFunction_def analyzeVariableDeclaration_def functionNameOf_def
        recordComponent_def addExport_def char_class_defs Let_def)
  have f: \<open>exports (analyze nestedComponent ''src/Nested.tsx'') = [''Header'', ''Footer'', ''Row'']\<close>
    by (simp add: analyze_def nestedComponent_def leaf_def analyzeNode_def
        analyzeFunction_def functionNameOf_def recordComponent_def addExport_def
        char_class_defs Let_def)
  from last_component_wins [of twoComponents "''src/Layout.tsx''"]
  have a: \<open>componentName (analyze twoComponents ''src/Layout.tsx'') = ''Footer''\<close>
    by (simp add: twoComponents_names)
  from last_component_wins [of nestedComponent "''src/Nested.tsx''"]
  have b: \<open>componentName (analyze nestedComponent ''src/Nested.tsx'') = ''Row''\<close>
    by (simp add: nestedComponent_names)
  from e f a b twoComponents_names nestedComponent_names show ?thesis by simp
qed

text \<open>
  Claim C9 says that a props contract contributes one prop per member. The interface
  \<^verbatim>\<open>ButtonProps\<close> has two members, the property \<^verbatim>\<open>label\<close> and the method
  \<^verbatim>\<open>onClick\<close>, and contributes the one prop \<^verbatim>\<open>label\<close>; the alias \<^verbatim>\<open>CardProps\<close> of
  an intersection type, one of whose parts has the member \<^verbatim>\<open>title\<close>, contributes nothing.
\<close>

theorem method_member_contributes_no_prop:
  \<open>preorder None methodMember ! 1
     = (Some OtherKind,
        InterfaceDeclaration ''ButtonProps''
          [PropertySignature ''label'' False (Some ''string'') None, OtherMember])
   \<and> endsWith ''ButtonProps'' ''Props''
   \<and> endsWith ''CardProps'' ''Props''
   \<and> props (analyze methodMember ''src/Button.tsx'')
       = [\<lparr> prop_name = ''label'', prop_type = ''string'', prop_optional = False,
             prop_defaultValue = None, prop_description = None \<rparr>]\<close>
  by (simp add: methodMember_def leaf_def endsWith_def analyze_def analyzeNode_def
      analyzeInterface_def analyzeTypeAlias_def)

text \<open>
  Claim C9, amended. Every interface declaration whose name ends with \<^verbatim>\<open>Props\<close>, and
  every type alias of that name whose type is a type literal, contributes one prop per
  member that is a property signature, and none for its other members: the prop records
  the text of the member's name, whether it has a question token, and the text of its type
  annotation, \<^verbatim>\<open>any\<close> when it has none. The props of the model are the contributions of
  all declarations, appended in the order of the traversal, with nothing removed.
\<close>

theorem props_appended_in_order:
  \<open>props (analyze sourceFile path) = concat (map declaredProps (preorder None sourceFile))
   \<and> declaredProps (parent, InterfaceDeclaration n members)
       = (if endsWith n ''Props'' then concat (map memberProps members) else [])
   \<and> declaredProps (parent, TypeAliasDeclaration n (Some members))
       = (if endsWith n ''Props'' then concat (map memberProps members) else [])
   \<and> declaredProps (parent, TypeAliasDeclaration n None) = []
   \<and> length (concat (map memberProps members)) = length (filter isPropertySignature members)
   \<and> memberProps (PropertySignature nm opt (Some ty) doc)
       = [\<lparr> prop_name = nm, prop_type = ty, prop_optional = opt, prop_defaultValue = None, prop_description = doc \<rparr>]
   \<and> memberProps (PropertySignature nm opt None doc)
       = [\<lparr> prop_name = nm, prop_type = ''any'', prop_optional = opt, prop_defaultValue = None, prop_description = doc \<rparr>]\<close>
proof (intro conjI)
  show "props (analyze sourceFile path) = concat (map declaredProps (preorder None sourceFile))"
    unfolding analyze_def visit_fold by (simp add: props_fold)
  show "length (concat (map memberProps members)) = length (filter isPropertySignature members)"
  proof (induction members)
    case Nil
    then show ?case by simp
  next
    case (Cons m ms)
    then show ?case by (cases m) simp_all
  qed
qed simp_all

text \<open>Two contracts with a prop of the same name: both props are kept, in order.\<close>

theorem props_appended_in_order_witness:
  \<open>props (analyze twoContracts ''src/Card.tsx'')
     = [\<lparr> prop_name = ''title'', prop_type = ''string'', prop_optional = False,
           prop_defaultValue = None, prop_description = None \<rparr>,
        \<lparr> prop_name = ''title'', prop_type = ''string'', prop_optional = True,
           prop_defaultValue = None, prop_description = None \<rparr>,
        \<lparr> prop_name = ''size'', prop_type = ''any'', prop_optional = False,
           prop_defaultValue = None, prop_description = None \<rparr>]\<close>
proof -
  have \<open>concat (map declaredProps (preorder None twoContracts))
     = [\<lparr> prop_name = ''title'', prop_type = ''string'', prop_optional = False,
           prop_defaultValue = None, prop_description = None \<rparr>,
        \<lparr> prop_name = ''title'', prop_type = ''string'', prop_optional = True,
           prop_defaultValue = None, prop_description = None \<rparr>,
        \<lparr> prop_name = ''size'', prop_type = ''any'', prop_optional = False,
           prop_defaultValue = None, prop_description = None \<rparr>]\<close>
    by (simp add: twoContracts_def leaf_def endsWith_def)
  with props_appended_in_order [of twoContracts "''src/Card.tsx''"]
  show ?thesis by simp
qed

section \<open>Properties of the repairer\<close>

lemma bareModel_text: \<open>generate bareModel ''src/B.tsx'' = brokenImport 0\<close>
  by (simp add: generate_def buildTestFile_def generateImports_def generateTestCases_def
      bareModel_def mkModel_def createBasicRenderTest_def createAccessibilityTests_def
      keyboardTest_def createConditionalRenderingTests_def hasProp_def
      getRequiredPropsObject_def getExpectedRole_def toLowerCase_def getImportPath_def
      stripExtension_def endsWith_def startsWith_def char_class_defs brokenImport_def Let_def)

lemma repair_first:
  \<open>fixTestErrors (brokenImport 0) missingLabel bareModel ''src/B.tsx'' = Some (brokenImport 1)\<close>
  by code_simp

lemma repair_second:
  \<open>fixTestErrors (brokenImport 1) missingLabel bareModel ''src/B.tsx'' = Some (brokenImport 2)\<close>
  by code_simp

lemma brokenImport_differ: "brokenImport 2 \<noteq> brokenImport 1"
  by (simp add: brokenImport_def numeral_2_eq_2)

text \<open>
  Claim C7 says that a second repair with the same diagnostic changes nothing. For the
  generated test of \<^verbatim>\<open>B\<close> and the diagnostic of the missing prop \<^verbatim>\<open>label\<close> it does.
  In \<^verbatim>\<open>render(<B  />)\<close> the group of the render pattern holds the slash, not the
  props; the prop is put behind the first slash of the file; and the guard against a
  second insertion looks at the group again, which still is the slash. So the second
  repair inserts the prop once more.
\<close>

theorem repair_not_idempotent:
  \<open>generate bareModel ''src/B.tsx'' = brokenImport 0
   \<and> map_option (\<lambda>m. (matched m, groupText m 1)) (findRenderProps ''    render(<B  />);'')
       = Some (''render(<B  />'', ''/'')
   \<and> fixTestErrors (generate bareModel ''src/B.tsx'') missingLabel bareModel ''src/B.tsx''
       = Some (brokenImport 1)
   \<and> fixTestErrors (brokenImport 1) missingLabel bareModel ''src/B.tsx''
       = Some (brokenImport 2)
   \<and> brokenImport 2 \<noteq> brokenImport 1\<close>
proof (intro conjI)
  show \<open>generate bareModel ''src/B.tsx'' = brokenImport 0\<close>
    by (rule bareModel_text)
  show \<open>map_option (\<lambda>m. (matched m, groupText m 1)) (findRenderProps ''    render(<B  />);'')
       = Some (''render(<B  />'', ''/'')\<close>
    by code_simp
  show \<open>fixTestErrors (generate bareModel ''src/B.tsx'') missingLabel bareModel ''src/B.tsx''
       = Some (brokenImport 1)\<close>
    unfolding bareModel_text by (rule repair_first)
  show \<open>fixTestErrors (brokenImport 1) missingLabel bareModel ''src/B.tsx''
       = Some (brokenImport 2)\<close>
    by (rule repair_second)
  show "brokenImport 2 \<noteq> brokenImport 1"
    by (rule brokenImport_differ)
qed


end
